theory Spec2Isabelle
  imports Complex_Main
begin

section \<open>Python strings\<close>

text \<open>
  Identifiers are Python \<open>str\<close> values, modelled as \<open>string\<close>. The four string
  operations the pipeline uses are \<open>s.startswith(p)\<close>, \<open>sub in s\<close>,
  \<open>s.replace(old, new)\<close> (every non-overlapping occurrence, leftmost first) and
  \<open>s.split('[')[0]\<close>.
\<close>

fun startswith :: "string \<Rightarrow> string \<Rightarrow> bool" where
  "startswith s [] = True"
| "startswith [] (p # ps) = False"
| "startswith (c # cs) (p # ps) = (c = p \<and> startswith cs ps)"

fun str_contains :: "string \<Rightarrow> string \<Rightarrow> bool" where
  "str_contains sub [] = (sub = [])"
| "str_contains sub (c # cs) = (startswith (c # cs) sub \<or> str_contains sub cs)"

fun replace_str :: "string \<Rightarrow> string \<Rightarrow> string \<Rightarrow> string" where
  "replace_str old new [] = (if old = [] then new else [])"
| "replace_str old new (c # cs) =
     (if old = [] then new @ c # replace_str old new cs
      else if startswith (c # cs) old
           then new @ replace_str old new (drop (length old - 1) cs)
           else c # replace_str old new cs)"

definition split_base :: "string \<Rightarrow> string" where
  \<comment> \<open>\<open>s.split('[')[0]\<close>\<close>
  "split_base s = takeWhile (\<lambda>c. c \<noteq> CHR ''['') s"

section \<open>Flux aggregation (simulation.py)\<close>

type_synonym flux_dict = "string \<rightharpoonup> real"

definition pyget :: "('k \<rightharpoonup> 'v) \<Rightarrow> 'k \<Rightarrow> 'v \<Rightarrow> 'v" where
  \<comment> \<open>\<open>d.get(k, default)\<close>\<close>
  "pyget d k dflt = (case d k of None \<Rightarrow> dflt | Some v \<Rightarrow> v)"

record raw_fva =
  raw_min_flux_diet :: real
  raw_max_flux_diet :: real
  raw_min_flux_fecal :: real
  raw_max_flux_fecal :: real

definition tol :: real where
  "tol = 1 / 10 ^ 7"

definition diet_var_of :: "string \<Rightarrow> string" where
  \<comment> \<open>\<open>rxn.replace('EX_', 'Diet_EX_').replace('[fe]', '[d]')\<close>\<close>
  "diet_var_of rxn = replace_str ''[fe]'' ''[d]'' (replace_str ''EX_'' ''Diet_EX_'' rxn)"

text \<open>
  One iteration of the loop of \<open>_analyze_metabolite_fluxes\<close> (lines 189 to 207). The
  statement of line 193 is an expression statement: it evaluates a comparison \<open>==\<close> and
  drops the result, so \<open>cut_off\<close> below is computed and never used.
\<close>

definition flux_loop_body ::
  "flux_dict \<Rightarrow> flux_dict \<Rightarrow> flux_dict \<Rightarrow> flux_dict \<Rightarrow> string \<Rightarrow>
   flux_dict \<times> flux_dict \<times> flux_dict \<times> (string \<rightharpoonup> raw_fva) \<Rightarrow>
   flux_dict \<times> flux_dict \<times> flux_dict \<times> (string \<rightharpoonup> raw_fva)" where
  "flux_loop_body min_flux_fecal max_flux_fecal min_flux_diet max_flux_diet rxn acc =
     (let fecal_var = rxn;
          diet_var = diet_var_of rxn;
          cut_off = (if \<bar>pyget max_flux_fecal fecal_var 0\<bar> < tol
                     then pyget max_flux_fecal fecal_var 0 = 0 else False);
          prod = \<bar>pyget min_flux_diet diet_var 0 + pyget max_flux_fecal fecal_var 0\<bar>;
          uptk = \<bar>pyget max_flux_diet diet_var 0 + pyget min_flux_fecal fecal_var 0\<bar>;
          min_net_fe_ex = pyget min_flux_fecal fecal_var 0 + pyget min_flux_diet diet_var 0
      in ((fst acc)(rxn \<mapsto> prod),
          (fst (snd acc))(rxn \<mapsto> uptk),
          (fst (snd (snd acc)))(rxn \<mapsto> min_net_fe_ex),
          (snd (snd (snd acc)))(rxn \<mapsto>
             \<lparr>raw_min_flux_diet = pyget min_flux_diet diet_var 0,
              raw_max_flux_diet = pyget max_flux_diet diet_var 0,
              raw_min_flux_fecal = pyget min_flux_fecal fecal_var 0,
              raw_max_flux_fecal = pyget max_flux_fecal fecal_var 0\<rparr>)))"

text \<open>
  \<open>_analyze_metabolite_fluxes\<close> after the two FVA calls. The FVA itself is the solver's
  work: its four result dictionaries are parameters, and so is \<open>fecal_rxns\<close>, the ids of
  \<open>model.exchanges\<close>. The loop runs over \<open>set(fecal_rxns).intersection(set(exchanges))\<close>;
  each key is written once, so the order of the set does not show in the result.
\<close>

definition analyze_metabolite_fluxes ::
  "string list \<Rightarrow> string list \<Rightarrow> flux_dict \<Rightarrow> flux_dict \<Rightarrow> flux_dict \<Rightarrow> flux_dict \<Rightarrow>
   flux_dict \<times> flux_dict \<times> flux_dict \<times> (string \<rightharpoonup> raw_fva)" where
  "analyze_metabolite_fluxes fecal_rxns exchanges min_flux_fecal max_flux_fecal
       min_flux_diet max_flux_diet =
     fold (flux_loop_body min_flux_fecal max_flux_fecal min_flux_diet max_flux_diet)
          (filter (\<lambda>r. r \<in> set exchanges) (remdups fecal_rxns))
          (Map.empty, Map.empty, Map.empty, Map.empty)"

definition exchanges_of :: "string list \<Rightarrow> string list" where
  \<comment> \<open>line 236: \<open>[f"EX_{m.replace('[e]', '[fe]')}" for m in ex_mets if m != 'biomass[e]']\<close>\<close>
  "exchanges_of ex_mets =
     map (\<lambda>m. ''EX_'' @ replace_str ''[e]'' ''[fe]'' m)
         (filter (\<lambda>m. m \<noteq> ''biomass[e]'') ex_mets)"

section \<open>The network model (cobra)\<close>

text \<open>
  A cobra \<open>Model\<close> holds its reactions and metabolites in id-indexed lists
  (\<open>DictList\<close>: ordered, ids unique). A reaction's stoichiometry maps metabolites to
  coefficients; it is kept here as an association list keyed by metabolite id, in
  insertion order. Formula and display name of a metabolite play no part in the pipeline
  and are left out. Fluxes, bounds and abundances are Python floats, modelled as reals.
\<close>

datatype py_error = ValueError | KeyError | UnboundLocalError | AttributeError | OtherError string

record metabolite =
  met_id :: string
  compartment :: string

record reaction =
  rxn_id :: string
  rxn_name :: string
  subsystem :: string
  lower_bound :: real
  upper_bound :: real
  stoich :: "(string \<times> real) list"

record cobra_model =
  reactions :: "reaction list"
  metabolites :: "metabolite list"

definition rxn_ids :: "reaction list \<Rightarrow> string list" where
  "rxn_ids rs = map rxn_id rs"

definition get_by_id :: "reaction list \<Rightarrow> string \<Rightarrow> reaction option" where
  \<comment> \<open>\<open>model.reactions.get_by_id(rid)\<close>; \<open>None\<close> stands for its KeyError\<close>
  "get_by_id rs rid = find (\<lambda>r. rxn_id r = rid) rs"

fun put_by_id :: "string \<Rightarrow> reaction \<Rightarrow> reaction list \<Rightarrow> reaction list" where
  "put_by_id rid r' [] = []"
| "put_by_id rid r' (r # rs) =
     (if rxn_id r = rid then r' # rs else r # put_by_id rid r' rs)"

definition modify_by_id ::
  "string \<Rightarrow> (reaction \<Rightarrow> py_error + reaction) \<Rightarrow> reaction list \<Rightarrow> py_error + reaction list" where
  \<comment> \<open>an assignment to an attribute of \<open>model.reactions.get_by_id(rid)\<close>\<close>
  "modify_by_id rid f rs =
     (case get_by_id rs rid of
        None \<Rightarrow> Inl KeyError
      | Some r \<Rightarrow> (case f r of Inl e \<Rightarrow> Inl e | Inr r' \<Rightarrow> Inr (put_by_id rid r' rs)))"

text \<open>
  The bound setters of cobra's \<open>Reaction\<close> check the new pair of bounds and raise
  ValueError when the lower bound would exceed the upper bound.
\<close>

definition set_lower_bound :: "real \<Rightarrow> reaction \<Rightarrow> py_error + reaction" where
  "set_lower_bound v r =
     (if upper_bound r < v then Inl ValueError else Inr (r\<lparr>lower_bound := v\<rparr>))"

definition set_upper_bound :: "real \<Rightarrow> reaction \<Rightarrow> py_error + reaction" where
  "set_upper_bound v r =
     (if v < lower_bound r then Inl ValueError else Inr (r\<lparr>upper_bound := v\<rparr>))"

definition set_bounds :: "real \<times> real \<Rightarrow> reaction \<Rightarrow> py_error + reaction" where
  "set_bounds b r =
     (if snd b < fst b then Inl ValueError
      else Inr (r\<lparr>lower_bound := fst b, upper_bound := snd b\<rparr>))"

fun for_each :: "('a \<Rightarrow> py_error + 'a) \<Rightarrow> 'a list \<Rightarrow> py_error + 'a list" where
  \<comment> \<open>a \<open>for\<close> loop that updates each element in place and stops at the first raise\<close>
  "for_each f [] = Inr []"
| "for_each f (x # xs) =
     (case f x of
        Inl e \<Rightarrow> Inl e
      | Inr y \<Rightarrow> (case for_each f xs of Inl e \<Rightarrow> Inl e | Inr ys \<Rightarrow> Inr (y # ys)))"

section \<open>Diet adaptation (simulation.py)\<close>

record diet_row =
  row_rxn_id :: string
  row_lower_bound :: real
  row_upper_bound :: "real option"

fun rename_diet_loop :: "string list \<Rightarrow> reaction list \<Rightarrow> py_error + reaction list" where
  \<comment> \<open>lines 87 to 90\<close>
  "rename_diet_loop [] rs = Inr rs"
| "rename_diet_loop (rid # rest) rs =
     (let new_id = replace_str ''EX_'' ''Diet_EX_'' rid
      in if new_id \<notin> set (rxn_ids rs)
         then (case modify_by_id rid (\<lambda>r. Inr (r\<lparr>rxn_id := new_id\<rparr>)) rs of
                 Inl e \<Rightarrow> Inl e
               | Inr rs' \<Rightarrow> rename_diet_loop rest rs')
         else rename_diet_loop rest rs)"

definition rename_diet_exchanges :: "reaction list \<Rightarrow> py_error + reaction list" where
  \<comment> \<open>lines 86 to 90\<close>
  "rename_diet_exchanges rs =
     rename_diet_loop
       (map rxn_id (filter (\<lambda>r. str_contains ''[d]'' (rxn_id r) \<and> startswith (rxn_id r) ''EX_'') rs))
       rs"

definition close_diet :: "reaction list \<Rightarrow> py_error + reaction list" where
  \<comment> \<open>lines 93 to 95\<close>
  "close_diet rs =
     for_each (\<lambda>rxn. if startswith (rxn_id rxn) ''Diet_EX_'' then set_lower_bound 0 rxn
                      else Inr rxn) rs"

definition apply_diet_row :: "diet_row \<Rightarrow> reaction list \<Rightarrow> py_error + reaction list" where
  \<comment> \<open>lines 99 to 103\<close>
  "apply_diet_row row rs =
     (let rxn = row_rxn_id row
      in if rxn \<in> set (rxn_ids rs)
         then (case modify_by_id rxn (set_lower_bound (row_lower_bound row)) rs of
                 Inl e \<Rightarrow> Inl e
               | Inr rs1 \<Rightarrow>
                   (case row_upper_bound row of
                      None \<Rightarrow> Inr rs1
                    | Some ub \<Rightarrow> modify_by_id rxn (set_upper_bound ub) rs1))
         else Inr rs)"

fun apply_diet_rows :: "diet_row list \<Rightarrow> reaction list \<Rightarrow> py_error + reaction list" where
  \<comment> \<open>the loop of line 98\<close>
  "apply_diet_rows [] rs = Inr rs"
| "apply_diet_rows (row # rows) rs =
     (case apply_diet_row row rs of Inl e \<Rightarrow> Inl e | Inr rs' \<Rightarrow> apply_diet_rows rows rs')"

definition apply_dietary_constraints ::
  "cobra_model \<Rightarrow> diet_row list \<Rightarrow> py_error + cobra_model" where
  "apply_dietary_constraints model diet_constraints =
     (case rename_diet_exchanges (reactions model) of
        Inl e \<Rightarrow> Inl e
      | Inr rs1 \<Rightarrow>
          (case close_diet rs1 of
             Inl e \<Rightarrow> Inl e
           | Inr rs2 \<Rightarrow>
               (case apply_diet_rows diet_constraints rs2 of
                  Inl e \<Rightarrow> Inl e
                | Inr rs3 \<Rightarrow> Inr (model\<lparr>reactions := rs3\<rparr>))))"

definition HUMAN_METS :: "(string \<times> real) list" where
  "HUMAN_METS =
     [(''gchola'', - 10), (''tdchola'', - 10), (''tchola'', - 10), (''dgchol'', - 10),
      (''34dhphe'', - 10), (''5htrp'', - 10), (''Lkynr'', - 10), (''f1a'', - 1),
      (''gncore1'', - 1), (''gncore2'', - 1), (''dsT_antigen'', - 1), (''sTn_antigen'', - 1),
      (''core8'', - 1), (''core7'', - 1), (''core5'', - 1), (''core4'', - 1),
      (''ha'', - 1), (''cspg_a'', - 1), (''cspg_b'', - 1), (''cspg_c'', - 1),
      (''cspg_d'', - 1), (''cspg_e'', - 1), (''hspg'', - 1)]"

fun human_mets_loop ::
  "(string \<times> real) list \<Rightarrow> diet_row list \<Rightarrow> reaction list \<Rightarrow> py_error + reaction list" where
  \<comment> \<open>lines 119 to 122\<close>
  "human_mets_loop [] diet rs = Inr rs"
| "human_mets_loop ((met, bound) # rest) diet rs =
     (let rid = ''Diet_EX_'' @ met @ ''[d]''
      in if rid \<notin> set (map row_rxn_id diet) \<and> rid \<in> set (rxn_ids rs)
         then (case modify_by_id rid (set_bounds (bound, 10000)) rs of
                 Inl e \<Rightarrow> Inl e
               | Inr rs' \<Rightarrow> human_mets_loop rest diet rs')
         else human_mets_loop rest diet rs)"

definition configure_physiological_bounds ::
  "cobra_model \<Rightarrow> real \<times> real \<Rightarrow> (string \<times> real) list \<Rightarrow> diet_row list \<Rightarrow>
   py_error + cobra_model" where
  "configure_physiological_bounds model biomass_bounds humanMets diet_constraints =
     (case (if ''communityBiomass'' \<in> set (rxn_ids (reactions model))
            then modify_by_id ''communityBiomass'' (set_bounds biomass_bounds) (reactions model)
            else Inr (reactions model)) of
        Inl e \<Rightarrow> Inl e
      | Inr rs1 \<Rightarrow>
     (case for_each (\<lambda>rxn. if startswith (rxn_id rxn) ''UFEt_'' \<or> startswith (rxn_id rxn) ''DUt_''
                               \<or> startswith (rxn_id rxn) ''EX_''
                            then set_upper_bound 1000000 rxn else Inr rxn) rs1 of
        Inl e \<Rightarrow> Inl e
      | Inr rs2 \<Rightarrow>
     (case human_mets_loop humanMets diet_constraints rs2 of
        Inl e \<Rightarrow> Inl e
      | Inr rs3 \<Rightarrow>
     (case for_each (\<lambda>rxn. if str_contains ''_DM_'' (rxn_id rxn) then set_lower_bound 0 rxn
                            else if str_contains ''_sink_'' (rxn_id rxn)
                                 then set_lower_bound (- 1) rxn
                                 else Inr rxn) rs3 of
        Inl e \<Rightarrow> Inl e
      | Inr rs4 \<Rightarrow> Inr (model\<lparr>reactions := rs4\<rparr>)))))"

section \<open>One sample and the collecting loop (simulation.py)\<close>

text \<open>
  Python tuples are untyped: a function returns a tuple of any length and the caller
  unpacks it into as many names as it wrote. Unpacking a tuple of another length raises
  ValueError before any name is bound. Tuples that cross a call are therefore lists of
  \<open>pyval\<close>.
\<close>

datatype pyval =
    PStr string
  | PFlux flux_dict
  | PRaw "string \<rightharpoonup> raw_fva"

definition unpack :: "nat \<Rightarrow> pyval list \<Rightarrow> py_error + pyval list" where
  "unpack n t = (if length t = n then Inr t else Inl ValueError)"

definition analyze_result_tuple ::
  "flux_dict \<times> flux_dict \<times> flux_dict \<times> (string \<rightharpoonup> raw_fva) \<Rightarrow> pyval list" where
  \<comment> \<open>line 210: the four values \<open>_analyze_metabolite_fluxes\<close> returns\<close>
  "analyze_result_tuple r =
     [PFlux (fst r), PFlux (fst (snd r)), PFlux (fst (snd (snd r))), PRaw (snd (snd (snd r)))]"

record fva_result =
  fva_fecal_rxns :: "string list"
  fva_min_flux_fecal :: flux_dict
  fva_max_flux_fecal :: flux_dict
  fva_min_flux_diet :: flux_dict
  fva_max_flux_diet :: flux_dict

text \<open>
  \<open>simulate_single_sample\<close>. Loading the sample file, optimising and saving the
  diet-adapted model, and the coupling constraints with the two FVA runs are the work of
  collaborators (file system, solver): \<open>loaded\<close> is what \<open>load_matlab_model\<close> gives or
  raises, \<open>optimize_and_save\<close> gives the saved path, \<open>run_fva\<close> gives the exchange ids
  of the model and the four FVA dictionaries. The \<open>except\<close> clause prints and raises
  the exception again, so an error passes through unchanged.
\<close>

definition simulate_single_sample ::
  "string \<Rightarrow> string list \<Rightarrow> (py_error + cobra_model) \<Rightarrow> diet_row list \<Rightarrow> real \<times> real \<Rightarrow>
   (string \<times> real) list \<Rightarrow> (cobra_model \<Rightarrow> py_error + string) \<Rightarrow>
   (cobra_model \<Rightarrow> py_error + fva_result) \<Rightarrow> py_error + pyval list" where
  "simulate_single_sample sample_name ex_mets loaded diet_constraints biomass_bounds humanMets
       optimize_and_save run_fva =
     (case loaded of
        Inl e \<Rightarrow> Inl e
      | Inr model0 \<Rightarrow>
     (case apply_dietary_constraints model0 diet_constraints of
        Inl e \<Rightarrow> Inl e
      | Inr model1 \<Rightarrow>
     (case configure_physiological_bounds model1 biomass_bounds humanMets diet_constraints of
        Inl e \<Rightarrow> Inl e
      | Inr model2 \<Rightarrow>
     (case optimize_and_save model2 of
        Inl e \<Rightarrow> Inl e
      | Inr diet_model_path \<Rightarrow>
     (case run_fva model2 of
        Inl e \<Rightarrow> Inl e
      | Inr fva \<Rightarrow>
     (case unpack 2 (analyze_result_tuple
              (analyze_metabolite_fluxes (fva_fecal_rxns fva) ex_mets
                 (fva_min_flux_fecal fva) (fva_max_flux_fecal fva)
                 (fva_min_flux_diet fva) (fva_max_flux_diet fva))) of
        Inl e \<Rightarrow> Inl e
      | Inr t \<Rightarrow> Inr [PStr sample_name, t ! 0, t ! 1]))))))"

text \<open>
  The collecting loop of \<open>simulate_microbiota_models\<close> (lines 261 to 272). The name
  \<open>sample_name\<close> is a local variable of the function, bound only by the unpacking of
  line 263; \<open>st_sample_name\<close> is \<open>None\<close> while it is unbound. The handler of line 270
  reads it: reading an unbound local raises UnboundLocalError, out of the handler and out
  of the loop. \<open>st_log\<close> keeps the sample names the handler printed.
\<close>

record sim_state =
  st_sample_name :: "pyval option"
  st_net_production :: "pyval \<rightharpoonup> pyval"
  st_net_uptake :: "pyval \<rightharpoonup> pyval"
  st_min_net_fecal_excretion :: "pyval \<rightharpoonup> pyval"
  st_raw_fva_results :: "pyval \<rightharpoonup> pyval"
  st_log :: "pyval list"

definition init_state :: sim_state where
  "init_state =
     \<lparr>st_sample_name = None, st_net_production = Map.empty, st_net_uptake = Map.empty,
      st_min_net_fecal_excretion = Map.empty, st_raw_fva_results = Map.empty, st_log = []\<rparr>"

definition collect_one :: "(py_error + pyval list) \<Rightarrow> sim_state \<Rightarrow> py_error + sim_state" where
  "collect_one future_result st =
     (case (case future_result of Inl e \<Rightarrow> Inl e | Inr t \<Rightarrow> unpack 5 t) of
        Inr t \<Rightarrow>
          Inr (st\<lparr>st_sample_name := Some (t ! 0),
                  st_net_production := (st_net_production st)(t ! 0 \<mapsto> t ! 1),
                  st_net_uptake := (st_net_uptake st)(t ! 0 \<mapsto> t ! 2),
                  st_min_net_fecal_excretion := (st_min_net_fecal_excretion st)(t ! 0 \<mapsto> t ! 3),
                  st_raw_fva_results := (st_raw_fva_results st)(t ! 0 \<mapsto> t ! 4)\<rparr>)
      | Inl e \<Rightarrow>
          (case st_sample_name st of
             None \<Rightarrow> Inl UnboundLocalError
           | Some s \<Rightarrow> Inr (st\<lparr>st_log := st_log st @ [s]\<rparr>)))"

fun collect_results :: "(py_error + pyval list) list \<Rightarrow> sim_state \<Rightarrow> py_error + sim_state" where
  "collect_results [] st = Inr st"
| "collect_results (r # rs) st =
     (case collect_one r st of Inl e \<Rightarrow> Inl e | Inr st' \<Rightarrow> collect_results rs st')"

text \<open>
  \<open>simulate_microbiota_models\<close>. \<open>completed\<close> lists the sample names in the order in
  which their tasks complete (\<open>as_completed\<close>); \<open>diet\<close> is what
  \<open>adapt_vmh_diet_to_agora\<close> gives or raises; the remaining parameters give each
  sample's collaborators.
\<close>

definition simulate_microbiota_models ::
  "string list \<Rightarrow> string list \<Rightarrow> (py_error + diet_row list) \<Rightarrow> real \<times> real \<Rightarrow>
   (string \<Rightarrow> py_error + cobra_model) \<Rightarrow> (string \<Rightarrow> cobra_model \<Rightarrow> py_error + string) \<Rightarrow>
   (string \<Rightarrow> cobra_model \<Rightarrow> py_error + fva_result) \<Rightarrow>
   py_error + (string list \<times> sim_state)" where
  "simulate_microbiota_models completed ex_mets diet biomass_bounds load optimize_and_save run_fva =
     (let exchanges = exchanges_of ex_mets
      in case diet of
           Inl e \<Rightarrow> Inl e
         | Inr diet_constraints \<Rightarrow>
             (case collect_results
                     (map (\<lambda>samp. simulate_single_sample samp exchanges (load samp)
                                     diet_constraints biomass_bounds HUMAN_METS
                                     (optimize_and_save samp) (run_fva samp))
                          completed)
                     init_state of
                Inl e \<Rightarrow> Inl e
              | Inr st \<Rightarrow> Inr (exchanges, st)))"

section \<open>Building the community network (community_gem_builder.py)\<close>

definition EXCHANGE_BOUNDS :: "real \<times> real" where
  "EXCHANGE_BOUNDS = (- 1000, 10000)"

definition TRANSPORT_BOUNDS :: "real \<times> real" where
  "TRANSPORT_BOUNDS = (0, 10000)"

definition ABUNDANCE_THRESHOLD :: real where
  "ABUNDANCE_THRESHOLD = 1 / 10 ^ 7"

text \<open>
  \<open>create_rxn\<close>. A fresh cobra \<open>Reaction\<close> has bounds (0, 1000) and no metabolites; the
  function then sets the lower and the upper bound. Every call of this file passes
  constant bounds with \<open>lb \<le> 1000\<close> and \<open>lb \<le> ub\<close>, for which the setters' checks
  pass.
\<close>

definition create_rxn :: "string \<Rightarrow> string \<Rightarrow> string \<Rightarrow> real \<times> real \<Rightarrow> reaction" where
  "create_rxn rxn_identifier name subsys bounds =
     \<lparr>rxn_id = rxn_identifier, rxn_name = name, subsystem = subsys,
      lower_bound = fst bounds, upper_bound = snd bounds, stoich = []\<rparr>"

definition met_ids :: "cobra_model \<Rightarrow> string list" where
  "met_ids model = map met_id (metabolites model)"

definition remove_reactions :: "(reaction \<Rightarrow> bool) \<Rightarrow> cobra_model \<Rightarrow> cobra_model" where
  \<comment> \<open>\<open>model.remove_reactions([r for r in model.reactions if P r])\<close>: metabolites stay\<close>
  "remove_reactions P model = model\<lparr>reactions := filter (\<lambda>r. \<not> P r) (reactions model)\<rparr>"

definition add_reaction :: "reaction \<Rightarrow> cobra_model \<Rightarrow> cobra_model" where
  \<comment> \<open>\<open>model.add_reactions([r])\<close> for a reaction with no metabolites yet: a reaction
      whose id the model already has is ignored\<close>
  "add_reaction r model =
     (if rxn_id r \<in> set (rxn_ids (reactions model)) then model
      else model\<lparr>reactions := reactions model @ [r]\<rparr>)"

definition add_metabolite :: "metabolite \<Rightarrow> cobra_model \<Rightarrow> cobra_model" where
  \<comment> \<open>\<open>model.add_metabolites([m])\<close>: a metabolite whose id the model already has is ignored\<close>
  "add_metabolite m model =
     (if met_id m \<in> set (met_ids model) then model
      else model\<lparr>metabolites := metabolites model @ [m]\<rparr>)"

fun add_coef :: "string \<Rightarrow> real \<Rightarrow> (string \<times> real) list \<Rightarrow> (string \<times> real) list" where
  "add_coef k c [] = [(k, c)]"
| "add_coef k c (kv # kvs) =
     (if fst kv = k then (k, snd kv + c) # kvs else kv # add_coef k c kvs)"

definition rxn_add_metabolites :: "(string \<times> real) list \<Rightarrow> reaction \<Rightarrow> reaction" where
  \<comment> \<open>\<open>Reaction.add_metabolites(d, combine=True)\<close>: coefficients of metabolites the
      reaction already has are added up, then metabolites with coefficient 0 are dropped\<close>
  "rxn_add_metabolites adds r =
     r\<lparr>stoich := filter (\<lambda>kv. snd kv \<noteq> 0) (fold (\<lambda>kv. add_coef (fst kv) (snd kv)) adds (stoich r))\<rparr>"

definition reaction_add_metabolites ::
  "string \<Rightarrow> (string \<times> real) list \<Rightarrow> cobra_model \<Rightarrow> py_error + cobra_model" where
  \<comment> \<open>\<open>add_metabolites\<close> on the reaction of the model with id \<open>rid\<close>; a metabolite id
      the model does not know raises KeyError\<close>
  "reaction_add_metabolites rid adds model =
     (if list_ex (\<lambda>kv. fst kv \<notin> set (met_ids model)) adds then Inl KeyError
      else (case modify_by_id rid (\<lambda>r. Inr (rxn_add_metabolites adds r)) (reactions model) of
              Inl e \<Rightarrow> Inl e
            | Inr rs \<Rightarrow> Inr (model\<lparr>reactions := rs\<rparr>)))"

text \<open>
  A reaction between two metabolites: \<open>create_rxn\<close>, \<open>add_reactions\<close>, then the
  assignment of the equation (\<open>"reactant --> product"\<close> for a transport,
  \<open>"general <=> private"\<close> for an inter-exchange) to \<open>reaction.reaction\<close> and of
  the bounds. When the model already has a reaction of that id, \<open>add_reactions\<close>
  ignores the new one, which then belongs to no model; parsing the equation looks the
  metabolite ids up in the model of the reaction, and on a reaction without a model that
  lookup raises AttributeError. Otherwise the parser takes both metabolites from the
  model, creating a metabolite (with no compartment) for an id the model does not know.
  The ids are taken to be plain: the parser splits an equation at blanks, at \<open>+\<close> and at
  the arrow, and reads a bracketed letter at the start as a compartment prefix.
\<close>

definition plain_id :: "string \<Rightarrow> bool" where
  \<comment> \<open>printable characters other than blank, \<open>+\<close>, \<open><\<close> and \<open>>\<close>, no bracket at the start\<close>
  "plain_id s =
     (\<not> startswith s ''[''
      \<and> (\<forall>c \<in> set s. 33 \<le> (of_char c :: nat) \<and> (of_char c :: nat) \<le> 126 \<and> c \<notin> set ''+<>''))"

definition add_transport ::
  "string \<Rightarrow> string \<Rightarrow> string \<Rightarrow> string \<Rightarrow> real \<times> real \<Rightarrow> cobra_model \<Rightarrow>
   py_error + cobra_model" where
  "add_transport rid name reactant_id product_id bounds model =
     (if rid \<in> set (rxn_ids (reactions model)) then Inl AttributeError
      else
        (let model1 = add_metabolite \<lparr>met_id = product_id, compartment = ''''\<rparr>
                        (add_metabolite \<lparr>met_id = reactant_id, compartment = ''''\<rparr> model)
         in Inr (model1\<lparr>reactions := reactions model1 @
              [rxn_add_metabolites [(reactant_id, - 1), (product_id, 1)]
                 (create_rxn rid name '' '' bounds)]\<rparr>)))"

fun dict_set :: "string \<Rightarrow> real \<Rightarrow> (string \<times> real) list \<Rightarrow> (string \<times> real) list" where
  \<comment> \<open>\<open>d[k] = v\<close> on a dict kept in insertion order\<close>
  "dict_set k v [] = [(k, v)]"
| "dict_set k v (kv # kvs) = (if fst kv = k then (k, v) # kvs else kv # dict_set k v kvs)"

fun biomass_loop ::
  "(string \<times> real) list \<Rightarrow> string list \<Rightarrow> (string \<times> real) list \<times> string list \<Rightarrow>
   (string \<times> real) list \<times> string list" where
  \<comment> \<open>lines 174 to 181; the second component collects the ids printed as missing\<close>
  "biomass_loop [] mets acc = acc"
| "biomass_loop (row # rows) mets acc =
     (let microbe_name = fst row;
          abundance = snd row;
          biomass_met_id = microbe_name @ ''_biomass[c]''
      in if biomass_met_id \<in> set mets
         then biomass_loop rows mets (dict_set biomass_met_id (- abundance) (fst acc), snd acc)
         else biomass_loop rows mets (fst acc, snd acc @ [biomass_met_id]))"

text \<open>
  \<open>com_biomass\<close>. The abundance file is read again from its path; \<open>abun\<close> is the
  column of the sample, one pair of organism name (column \<open>X\<close>) and abundance per row.
  The result carries the ids reported as missing.
\<close>

definition com_biomass ::
  "cobra_model \<Rightarrow> (string \<times> real) list \<Rightarrow> py_error + (cobra_model \<times> string list)" where
  "com_biomass model abun =
     (let model1 = remove_reactions (\<lambda>r. str_contains ''Biomass'' (rxn_id r)) model;
          abun_df = filter (\<lambda>row. snd row > ABUNDANCE_THRESHOLD) abun;
          model2 = add_reaction
                     (create_rxn ''communityBiomass'' ''communityBiomass'' '' '' (0, 10000)) model1;
          biomass_stoichiometry = biomass_loop abun_df (met_ids model2) ([], [])
      in case reaction_add_metabolites ''communityBiomass'' (fst biomass_stoichiometry) model2 of
           Inl e \<Rightarrow> Inl e
         | Inr model3 \<Rightarrow>
      (let model4 = add_metabolite \<lparr>met_id = ''microbeBiomass[u]'', compartment = ''u''\<rparr> model3
       in case reaction_add_metabolites ''communityBiomass'' [(''microbeBiomass[u]'', 1)] model4 of
            Inl e \<Rightarrow> Inl e
          | Inr model5 \<Rightarrow>
      (let model6 = add_reaction
                      (create_rxn ''EX_microbeBiomass[fe]'' ''EX_microbeBiomass[fe]'' '' ''
                         (- 10000, 10000)) model5;
           model7 = add_metabolite \<lparr>met_id = ''microbeBiomass[fe]'', compartment = ''fe''\<rparr> model6
       in case reaction_add_metabolites ''EX_microbeBiomass[fe]'' [(''microbeBiomass[fe]'', - 1)]
                 model7 of
            Inl e \<Rightarrow> Inl e
          | Inr model8 \<Rightarrow>
              (case add_transport ''UFEt_microbeBiomass'' ''UFEt_microbeBiomass''
                      ''microbeBiomass[u]'' ''microbeBiomass[fe]'' TRANSPORT_BOUNDS model8 of
                 Inl e \<Rightarrow> Inl e
               | Inr model9 \<Rightarrow> Inr (model9, snd biomass_stoichiometry)))))"

text \<open>
  \<open>prune_zero_abundance_microbe\<close>: the metabolites whose id starts with the name of a
  listed organism and an underscore are removed, and with them (destructive removal)
  every reaction that has one of them.
\<close>

definition prune_zero_abundance_microbe :: "cobra_model \<Rightarrow> string list \<Rightarrow> cobra_model" where
  "prune_zero_abundance_microbe model zero_abundance_microbe =
     (let zero_prefixes = map (\<lambda>microbe. microbe @ ''_'') zero_abundance_microbe;
          metabolites_to_remove =
            filter (\<lambda>met. list_ex (\<lambda>prefix. startswith (met_id met) prefix) zero_prefixes)
                   (metabolites model)
      in model\<lparr>metabolites := filter (\<lambda>met. met \<notin> set metabolites_to_remove) (metabolites model),
               reactions := filter (\<lambda>r. \<not> list_ex (\<lambda>kv. fst kv \<in> set (map met_id metabolites_to_remove))
                                                  (stoich r))
                                   (reactions model)\<rparr>)"

text \<open>
  \<open>build_sample_gem\<close>, for a sample whose file does not exist yet: the network it
  saves and the list of present organisms it hands to the pruning of the coupling
  constraints (a collaborator). \<open>sample_abun\<close> is the column of the sample, both as the
  data frame has it and as \<open>com_biomass\<close> reads it again.
\<close>

definition zero_microbe :: "(string \<times> real) list \<Rightarrow> string list" where
  \<comment> \<open>line 418\<close>
  "zero_microbe sample_abun = map fst (filter (\<lambda>sp. snd sp < 1 / 10 ^ 7) sample_abun)"

definition present_microbe :: "(string \<times> real) list \<Rightarrow> string list" where
  \<comment> \<open>line 419\<close>
  "present_microbe sample_abun = map fst (filter (\<lambda>sp. snd sp \<ge> 1 / 10 ^ 7) sample_abun)"

definition build_sample_gem ::
  "cobra_model \<Rightarrow> (string \<times> real) list \<Rightarrow> py_error + (cobra_model \<times> string list)" where
  "build_sample_gem global_model sample_abun =
     (let model = prune_zero_abundance_microbe global_model (zero_microbe sample_abun)
      in case com_biomass model sample_abun of
           Inl e \<Rightarrow> Inl e
         | Inr res \<Rightarrow>
             (case for_each (\<lambda>reac. if str_contains ''DUt'' (rxn_id reac)
                                        \<or> str_contains ''UFEt'' (rxn_id reac)
                                     then set_lower_bound 0 reac else Inr reac)
                     (reactions (fst res)) of
                Inl e \<Rightarrow> Inl e
              | Inr rs \<Rightarrow> Inr ((fst res)\<lparr>reactions := rs\<rparr>, present_microbe sample_abun)))"

definition add_exchange_reaction ::
  "string \<Rightarrow> string list \<Rightarrow> cobra_model \<Rightarrow> real \<times> real \<Rightarrow> string \<Rightarrow> string \<Rightarrow>
   py_error + cobra_model" where
  "add_exchange_reaction base_name existing_met_ids model bounds cpt label =
     (let mid = base_name @ ''['' @ cpt @ '']''
      in if mid \<notin> set existing_met_ids
         then (let reac_id = ''EX_'' @ mid;
                   reaction = create_rxn reac_id (mid @ '' '' @ label @ '' exchange'') '' '' bounds;
                   model1 = add_reaction reaction model;
                   model2 = add_metabolite \<lparr>met_id = mid, compartment = cpt\<rparr> model1
               in reaction_add_metabolites reac_id [(mid, - 1)] model2)
         else Inr model)"

definition add_transport_reaction ::
  "string \<Rightarrow> string list \<Rightarrow> cobra_model \<Rightarrow> string \<Rightarrow> string \<Rightarrow> real \<times> real \<Rightarrow> string \<Rightarrow>
   py_error + cobra_model" where
  "add_transport_reaction rid existing_rxn_ids model reactant_id product_id bounds label =
     (if rid \<notin> set existing_rxn_ids
      then add_transport rid (rid @ '' '' @ label @ '' transport'') reactant_id product_id bounds model
      else Inr model)"

definition general_mets :: "cobra_model \<Rightarrow> string list" where
  \<comment> \<open>lines 88 to 95, before \<open>set\<close>: the \<open>[u]\<close> reactants of the reactions with
      \<open>IEX\<close> in their id\<close>
  "general_mets model =
     concat (map (\<lambda>reac. map fst (filter (\<lambda>kv. snd kv < 0 \<and> str_contains ''[u]'' (fst kv))
                                          (stoich reac)))
                 (filter (\<lambda>reac. str_contains ''IEX'' (rxn_id reac)) (reactions model)))"

definition lumen_step ::
  "string list \<Rightarrow> string list \<Rightarrow> string \<Rightarrow> cobra_model \<Rightarrow> py_error + cobra_model" where
  \<comment> \<open>lines 103 to 112: the body of the loop over the general metabolites\<close>
  "lumen_step existing_mets existing_rxns lumen_met model =
     (let base_name = split_base lumen_met
      in case add_exchange_reaction base_name existing_mets model EXCHANGE_BOUNDS ''d'' ''diet'' of
           Inl e \<Rightarrow> Inl e
         | Inr model1 \<Rightarrow>
      (case add_transport_reaction (''DUt_'' @ base_name) existing_rxns model1
              (base_name @ ''[d]'') lumen_met TRANSPORT_BOUNDS ''diet to lumen'' of
         Inl e \<Rightarrow> Inl e
       | Inr model2 \<Rightarrow>
      (case add_exchange_reaction base_name existing_mets model2 EXCHANGE_BOUNDS ''fe'' ''fecal'' of
         Inl e \<Rightarrow> Inl e
       | Inr model3 \<Rightarrow>
           add_transport_reaction (''UFEt_'' @ base_name) existing_rxns model3
             lumen_met (base_name @ ''[fe]'') TRANSPORT_BOUNDS ''lumen to fecal'')))"

fun lumen_loop ::
  "string list \<Rightarrow> string list \<Rightarrow> string list \<Rightarrow> cobra_model \<Rightarrow> py_error + cobra_model" where
  "lumen_loop existing_mets existing_rxns [] model = Inr model"
| "lumen_loop existing_mets existing_rxns (lumen_met # rest) model =
     (case lumen_step existing_mets existing_rxns lumen_met model of
        Inl e \<Rightarrow> Inl e
      | Inr model' \<Rightarrow> lumen_loop existing_mets existing_rxns rest model')"

definition remove_exchange_artifacts :: "cobra_model \<Rightarrow> cobra_model" where
  \<comment> \<open>lines 83 and 84\<close>
  "remove_exchange_artifacts model =
     remove_reactions (\<lambda>r. str_contains ''_EX_'' (rxn_id r) \<or> str_contains ''(e)'' (rxn_id r)) model"

text \<open>
  \<open>add_diet_fecal_compartments\<close>. The general metabolites are put in a Python set and
  the loop runs over that set; \<open>set_order\<close> gives the order in which the elements of the
  set come out, which the language leaves open.
\<close>

definition add_diet_fecal_compartments ::
  "(string list \<Rightarrow> string list) \<Rightarrow> cobra_model \<Rightarrow> py_error + cobra_model" where
  "add_diet_fecal_compartments set_order model =
     (let model0 = remove_exchange_artifacts model;
          general = set_order (general_mets model0);
          existing_mets = met_ids model0;
          existing_rxns = rxn_ids (reactions model0)
      in lumen_loop existing_mets existing_rxns general model0)"

section \<open>Tagging one organism (community_gem_builder.py)\<close>

text \<open>
  Assigning to the id of a metabolite or reaction that belongs to a model: the same id
  again is accepted, an id that another object of the model has raises ValueError. A
  renamed metabolite is the same object in every reaction that has it, so its new id
  shows in every stoichiometry.
\<close>

definition rename_metabolite ::
  "string \<Rightarrow> string \<Rightarrow> string \<Rightarrow> cobra_model \<Rightarrow> py_error + cobra_model" where
  \<comment> \<open>\<open>met.compartment = cpt; met.id = new\<close> for the metabolite with id \<open>old\<close>\<close>
  "rename_metabolite old new cpt model =
     (if new \<noteq> old \<and> new \<in> set (met_ids model) then Inl ValueError
      else Inr (model\<lparr>
        metabolites := map (\<lambda>m. if met_id m = old then \<lparr>met_id = new, compartment = cpt\<rparr> else m)
                           (metabolites model),
        reactions := map (\<lambda>r. r\<lparr>stoich := map (\<lambda>kv. if fst kv = old then (new, snd kv) else kv)
                                                   (stoich r)\<rparr>)
                         (reactions model)\<rparr>))"

definition tag_metabolite ::
  "string \<Rightarrow> string \<Rightarrow> string \<Rightarrow> cobra_model \<Rightarrow> py_error + cobra_model" where
  "tag_metabolite mid microbe_name cpt model =
     (let no_c_name = replace_str (''['' @ cpt @ '']'') '''' mid
      in rename_metabolite mid (microbe_name @ ''_'' @ no_c_name @ ''['' @ cpt @ '']'') cpt model)"

definition rename_reaction_at :: "nat \<Rightarrow> string \<Rightarrow> reaction list \<Rightarrow> py_error + reaction list" where
  \<comment> \<open>\<open>rxn.id = new\<close> for the reaction at position \<open>i\<close> of \<open>model.reactions\<close>\<close>
  "rename_reaction_at i new rs =
     (if new \<noteq> rxn_id (rs ! i) \<and> new \<in> set (rxn_ids rs) then Inl ValueError
      else Inr (rs[i := (rs ! i)\<lparr>rxn_id := new\<rparr>]))"

text \<open>
  \<open>pat in rxn.reaction\<close>: the equation of a reaction is written from its coefficients
  and metabolite ids, separated by blanks, \<open>+\<close> and the arrow; a pattern in brackets
  occurs in it exactly when it occurs in the id of one of its metabolites.
\<close>

definition rxn_mentions :: "string \<Rightarrow> reaction \<Rightarrow> bool" where
  "rxn_mentions pat r = list_ex (\<lambda>kv. str_contains pat (fst kv)) (stoich r)"

fun tag_mets_of :: "string list \<Rightarrow> string \<Rightarrow> cobra_model \<Rightarrow> py_error + cobra_model" where
  \<comment> \<open>lines 253 to 260: the loop over the metabolites of one reaction\<close>
  "tag_mets_of [] name model = Inr model"
| "tag_mets_of (k # ks) name model =
     (if (str_contains ''[c]'' k \<or> str_contains ''[p]'' k) \<and> \<not> str_contains name k
      then (case tag_metabolite k name (if str_contains ''[c]'' k then ''c'' else ''p'') model of
              Inl e \<Rightarrow> Inl e
            | Inr model' \<Rightarrow> tag_mets_of ks name model')
      else if str_contains ''[e]'' k \<and> \<not> str_contains name k
      then (case rename_metabolite k (name @ ''_'' @ replace_str ''[e]'' '''' k @ ''[u]'') ''u'' model of
              Inl e \<Rightarrow> Inl e
            | Inr model' \<Rightarrow> tag_mets_of ks name model')
      else tag_mets_of ks name model)"

fun tag_reactions :: "nat list \<Rightarrow> string \<Rightarrow> cobra_model \<Rightarrow> py_error + cobra_model" where
  \<comment> \<open>lines 248 to 260: the loop over the positions of \<open>model.reactions\<close>\<close>
  "tag_reactions [] name model = Inr model"
| "tag_reactions (i # rest) name model =
     (let rxn = reactions model ! i
      in if rxn_mentions ''[e]'' rxn \<or> rxn_mentions ''[c]'' rxn
         then (case rename_reaction_at i (name @ ''_'' @ rxn_id rxn) (reactions model) of
                 Inl e \<Rightarrow> Inl e
               | Inr rs \<Rightarrow>
                   (case tag_mets_of (map fst (stoich rxn)) name (model\<lparr>reactions := rs\<rparr>) of
                      Inl e \<Rightarrow> Inl e
                    | Inr model' \<Rightarrow> tag_reactions rest name model'))
         else tag_reactions rest name model)"

fun iex_loop :: "string list \<Rightarrow> string \<Rightarrow> cobra_model \<Rightarrow> py_error + cobra_model" where
  \<comment> \<open>lines 282 to 299\<close>
  "iex_loop [] name model = Inr model"
| "iex_loop (mid # rest) name model =
     (let general_met_id = replace_str (name @ ''_'') '''' mid;
          model1 = (if general_met_id \<notin> set (met_ids model)
                    then add_metabolite \<lparr>met_id = general_met_id, compartment = ''u''\<rparr> model
                    else model);
          iex_rxn_id = name @ ''_IEX_'' @ general_met_id @ ''tr''
      in case add_transport iex_rxn_id (name @ ''_IEX'') general_met_id mid (- 1000, 1000) model1 of
           Inl e \<Rightarrow> Inl e
         | Inr model2 \<Rightarrow> iex_loop rest name model2)"

definition create_inter_microbe_exchange :: "cobra_model \<Rightarrow> string \<Rightarrow> py_error + cobra_model" where
  "create_inter_microbe_exchange model microbe_name =
     iex_loop (map met_id (filter (\<lambda>met. str_contains ''[u]'' (met_id met)
                                        \<and> str_contains microbe_name (met_id met))
                                  (metabolites model)))
              microbe_name model"

fun finalize_reactions :: "nat list \<Rightarrow> string \<Rightarrow> reaction list \<Rightarrow> py_error + reaction list" where
  \<comment> \<open>lines 306 to 308\<close>
  "finalize_reactions [] name rs = Inr rs"
| "finalize_reactions (i # rest) name rs =
     (if \<not> startswith (rxn_id (rs ! i)) name
      then (case rename_reaction_at i (name @ ''_'' @ rxn_id (rs ! i)) rs of
              Inl e \<Rightarrow> Inl e
            | Inr rs' \<Rightarrow> finalize_reactions rest name rs')
      else finalize_reactions rest name rs)"

fun finalize_mets :: "nat list \<Rightarrow> string \<Rightarrow> cobra_model \<Rightarrow> py_error + cobra_model" where
  \<comment> \<open>lines 311 to 314\<close>
  "finalize_mets [] name model = Inr model"
| "finalize_mets (i # rest) name model =
     (let k = met_id (metabolites model ! i)
      in if (str_contains ''[c]'' k \<or> str_contains ''[p]'' k) \<and> \<not> str_contains name k
         then (case tag_metabolite k name (if str_contains ''[c]'' k then ''c'' else ''p'') model of
                 Inl e \<Rightarrow> Inl e
               | Inr model' \<Rightarrow> finalize_mets rest name model')
         else finalize_mets rest name model)"

definition finalize_microbe_tagging :: "cobra_model \<Rightarrow> string \<Rightarrow> py_error + cobra_model" where
  "finalize_microbe_tagging model microbe_name =
     (case finalize_reactions [0..<length (reactions model)] microbe_name (reactions model) of
        Inl e \<Rightarrow> Inl e
      | Inr rs \<Rightarrow>
          finalize_mets [0..<length (metabolites model)] microbe_name (model\<lparr>reactions := rs\<rparr>))"

text \<open>
  \<open>reformat_gem_for_community\<close>, given the short name of the organism (the file name of
  the model without directory and extension).
\<close>

definition reformat_gem_for_community :: "cobra_model \<Rightarrow> string \<Rightarrow> py_error + cobra_model" where
  "reformat_gem_for_community model short_microbe_name =
     (let model1 = remove_reactions (\<lambda>rxn. str_contains ''EX_'' (rxn_id rxn)
                                          \<and> \<not> str_contains ''biomass'' (rxn_id rxn)) model
      in case tag_reactions [0..<length (reactions model1)] short_microbe_name model1 of
           Inl e \<Rightarrow> Inl e
         | Inr model2 \<Rightarrow>
             (case create_inter_microbe_exchange model2 short_microbe_name of
                Inl e \<Rightarrow> Inl e
              | Inr model3 \<Rightarrow> finalize_microbe_tagging model3 short_microbe_name))"

text \<open>
  Proof devices for the tagging pass: an id is settled for an organism name when no
  branch of the tagging code would rename it, and one network keeps another when every
  settled id of the first stands at the same position in the second.
\<close>

definition tagged_cp :: "string \<Rightarrow> string \<Rightarrow> bool" where
  "tagged_cp name k = ((str_contains ''[c]'' k \<or> str_contains ''[p]'' k) \<longrightarrow> str_contains name k)"

definition settled :: "string \<Rightarrow> string \<Rightarrow> bool" where
  "settled name k = (tagged_cp name k \<and> (str_contains ''[e]'' k \<longrightarrow> str_contains name k))"

definition keeps :: "string \<Rightarrow> cobra_model \<Rightarrow> cobra_model \<Rightarrow> bool" where
  "keeps name M M' =
     (length (metabolites M) \<le> length (metabolites M')
      \<and> (\<forall>i < length (metabolites M).
            settled name (met_id (metabolites M ! i)) \<longrightarrow>
            met_id (metabolites M' ! i) = met_id (metabolites M ! i)))"

text \<open>
  A proof device: the reaction ids that one pass of the loop body for the general
  metabolite \<open>v\<close> may create or change, given the two snapshots.
\<close>

definition touches :: "string list \<Rightarrow> string list \<Rightarrow> string \<Rightarrow> string \<Rightarrow> bool" where
  "touches EM ER v t =
     (let b = split_base v
      in (t = ''EX_'' @ b @ ''[d]'' \<and> b @ ''[d]'' \<notin> set EM)
       \<or> (t = ''DUt_'' @ b \<and> ''DUt_'' @ b \<notin> set ER)
       \<or> (t = ''EX_'' @ b @ ''[fe]'' \<and> b @ ''[fe]'' \<notin> set EM)
       \<or> (t = ''UFEt_'' @ b \<and> ''UFEt_'' @ b \<notin> set ER))"

text \<open>The terms \<open>com_biomass\<close> is expected to collect: one per row whose biomass metabolite the network has.\<close>

definition biomass_terms :: "(string \<times> real) list \<Rightarrow> string list \<Rightarrow> (string \<times> real) list" where
  "biomass_terms rows mets =
     map (\<lambda>row. (fst row @ ''_biomass[c]'', - snd row))
         (filter (\<lambda>row. fst row @ ''_biomass[c]'' \<in> set mets) rows)"

section \<open>Example networks\<close>

definition diet_example :: cobra_model where
  "diet_example = \<lparr>reactions =
       [\<lparr>rxn_id = ''EX_glc[d]'', rxn_name = ''glc[d] diet exchange'', subsystem = '' '',
         lower_bound = - 1000, upper_bound = 10000, stoich = [(''glc[d]'', - 1)]\<rparr>,
        \<lparr>rxn_id = ''EX_ac[d]'', rxn_name = ''ac[d] diet exchange'', subsystem = '' '',
         lower_bound = - 1000, upper_bound = 10000, stoich = [(''ac[d]'', - 1)]\<rparr>,
        \<lparr>rxn_id = ''DUt_glc'', rxn_name = ''DUt_glc diet to lumen transport'', subsystem = '' '',
         lower_bound = 0, upper_bound = 10000, stoich = [(''glc[d]'', - 1), (''glc[u]'', 1)]\<rparr>],
      metabolites =
       [\<lparr>met_id = ''glc[d]'', compartment = ''d''\<rparr>, \<lparr>met_id = ''ac[d]'', compartment = ''d''\<rparr>,
        \<lparr>met_id = ''glc[u]'', compartment = ''u''\<rparr>]\<rparr>"

definition diet_example_adapted :: cobra_model where
  "diet_example_adapted = \<lparr>reactions =
       [\<lparr>rxn_id = ''Diet_EX_glc[d]'', rxn_name = ''glc[d] diet exchange'', subsystem = '' '',
         lower_bound = - 10, upper_bound = 10000, stoich = [(''glc[d]'', - 1)]\<rparr>,
        \<lparr>rxn_id = ''Diet_EX_ac[d]'', rxn_name = ''ac[d] diet exchange'', subsystem = '' '',
         lower_bound = 0, upper_bound = 10000, stoich = [(''ac[d]'', - 1)]\<rparr>,
        \<lparr>rxn_id = ''DUt_glc'', rxn_name = ''DUt_glc diet to lumen transport'', subsystem = '' '',
         lower_bound = 0, upper_bound = 10000, stoich = [(''glc[d]'', - 1), (''glc[u]'', 1)]\<rparr>],
      metabolites =
       [\<lparr>met_id = ''glc[d]'', compartment = ''d''\<rparr>, \<lparr>met_id = ''ac[d]'', compartment = ''d''\<rparr>,
        \<lparr>met_id = ''glc[u]'', compartment = ''u''\<rparr>]\<rparr>"

definition threshold_example :: cobra_model where
  "threshold_example = \<lparr>reactions =
       [\<lparr>rxn_id = ''A_biomass525'', rxn_name = ''biomass'', subsystem = '' '',
         lower_bound = 0, upper_bound = 1000,
         stoich = [(''A_atp[c]'', - 1), (''A_biomass[c]'', 1)]\<rparr>,
        \<lparr>rxn_id = ''B_biomass345'', rxn_name = ''biomass'', subsystem = '' '',
         lower_bound = 0, upper_bound = 1000,
         stoich = [(''B_atp[c]'', - 1), (''B_biomass[c]'', 1)]\<rparr>,
        \<lparr>rxn_id = ''C_biomass001'', rxn_name = ''biomass'', subsystem = '' '',
         lower_bound = 0, upper_bound = 1000,
         stoich = [(''C_atp[c]'', - 1), (''C_biomass[c]'', 1)]\<rparr>],
      metabolites =
       [\<lparr>met_id = ''A_atp[c]'', compartment = ''c''\<rparr>, \<lparr>met_id = ''A_biomass[c]'', compartment = ''c''\<rparr>,
        \<lparr>met_id = ''B_atp[c]'', compartment = ''c''\<rparr>, \<lparr>met_id = ''B_biomass[c]'', compartment = ''c''\<rparr>,
        \<lparr>met_id = ''C_atp[c]'', compartment = ''c''\<rparr>, \<lparr>met_id = ''C_biomass[c]'', compartment = ''c''\<rparr>]\<rparr>"

definition lumen_example :: cobra_model where
  "lumen_example = \<lparr>reactions =
       [\<lparr>rxn_id = ''A_IEX_glc[u]tr'', rxn_name = ''A_IEX'', subsystem = '' '',
         lower_bound = - 1000, upper_bound = 1000,
         stoich = [(''glc[u]'', - 1), (''A_glc[u]'', 1)]\<rparr>,
        \<lparr>rxn_id = ''A_IEX_ac[u]tr'', rxn_name = ''A_IEX'', subsystem = '' '',
         lower_bound = - 1000, upper_bound = 1000,
         stoich = [(''ac[u]'', - 1), (''A_ac[u]'', 1)]\<rparr>,
        \<lparr>rxn_id = ''A_EX_glc(e)'', rxn_name = ''old exchange'', subsystem = '' '',
         lower_bound = - 1000, upper_bound = 1000, stoich = [(''A_glc[u]'', - 1)]\<rparr>],
      metabolites =
       [\<lparr>met_id = ''glc[u]'', compartment = ''u''\<rparr>, \<lparr>met_id = ''A_glc[u]'', compartment = ''u''\<rparr>,
        \<lparr>met_id = ''ac[u]'', compartment = ''u''\<rparr>, \<lparr>met_id = ''A_ac[u]'', compartment = ''u''\<rparr>,
        \<lparr>met_id = ''glc[d]'', compartment = ''d''\<rparr>]\<rparr>"

definition shared_base_example :: cobra_model where
  "shared_base_example = \<lparr>reactions =
       [\<lparr>rxn_id = ''A_IEX_glc[u]tr'', rxn_name = ''A_IEX'', subsystem = '' '',
         lower_bound = - 1000, upper_bound = 1000,
         stoich = [(''glc[u]'', - 1), (''A_glc[u]'', 1)]\<rparr>,
        \<lparr>rxn_id = ''A_IEX_glc[x][u]tr'', rxn_name = ''A_IEX'', subsystem = '' '',
         lower_bound = - 1000, upper_bound = 1000,
         stoich = [(''glc[x][u]'', - 1), (''A_glc[x][u]'', 1)]\<rparr>],
      metabolites =
       [\<lparr>met_id = ''glc[u]'', compartment = ''u''\<rparr>, \<lparr>met_id = ''A_glc[u]'', compartment = ''u''\<rparr>,
        \<lparr>met_id = ''glc[x][u]'', compartment = ''u''\<rparr>,
        \<lparr>met_id = ''A_glc[x][u]'', compartment = ''u''\<rparr>]\<rparr>"

definition exchange_present_example :: cobra_model where
  "exchange_present_example = \<lparr>reactions =
       [\<lparr>rxn_id = ''A_IEX_ac[u]tr'', rxn_name = ''A_IEX'', subsystem = '' '',
         lower_bound = - 1000, upper_bound = 1000,
         stoich = [(''ac[u]'', - 1), (''A_ac[u]'', 1)]\<rparr>,
        \<lparr>rxn_id = ''EX_ac[d]'', rxn_name = ''acetate sink'', subsystem = '' '',
         lower_bound = - 5, upper_bound = 7, stoich = [(''ac[u]'', - 1)]\<rparr>],
      metabolites =
       [\<lparr>met_id = ''ac[u]'', compartment = ''u''\<rparr>, \<lparr>met_id = ''A_ac[u]'', compartment = ''u''\<rparr>]\<rparr>"

definition organism_example :: cobra_model where
  "organism_example = \<lparr>reactions =
       [\<lparr>rxn_id = ''PGI'', rxn_name = ''isomerase'', subsystem = '' '',
         lower_bound = - 1000, upper_bound = 1000,
         stoich = [(''g6p[c]'', - 1), (''f6p[c]'', 1)]\<rparr>,
        \<lparr>rxn_id = ''GLCt'', rxn_name = ''glucose transport'', subsystem = '' '',
         lower_bound = - 1000, upper_bound = 1000,
         stoich = [(''glc[e]'', - 1), (''glc[c]'', 1)]\<rparr>,
        \<lparr>rxn_id = ''EX_glc(e)'', rxn_name = ''glucose exchange'', subsystem = '' '',
         lower_bound = - 1000, upper_bound = 1000, stoich = [(''glc[e]'', - 1)]\<rparr>],
      metabolites =
       [\<lparr>met_id = ''g6p[c]'', compartment = ''c''\<rparr>, \<lparr>met_id = ''f6p[c]'', compartment = ''c''\<rparr>,
        \<lparr>met_id = ''glc[e]'', compartment = ''e''\<rparr>, \<lparr>met_id = ''glc[c]'', compartment = ''c''\<rparr>]\<rparr>"

definition organism_tagged :: cobra_model where
  "organism_tagged = \<lparr>reactions =
       [\<lparr>rxn_id = ''Bt_PGI'', rxn_name = ''isomerase'', subsystem = '' '',
         lower_bound = - 1000, upper_bound = 1000,
         stoich = [(''Bt_g6p[c]'', - 1), (''Bt_f6p[c]'', 1)]\<rparr>,
        \<lparr>rxn_id = ''Bt_GLCt'', rxn_name = ''glucose transport'', subsystem = '' '',
         lower_bound = - 1000, upper_bound = 1000,
         stoich = [(''Bt_glc[u]'', - 1), (''Bt_glc[c]'', 1)]\<rparr>,
        \<lparr>rxn_id = ''Bt_IEX_glc[u]tr'', rxn_name = ''Bt_IEX'', subsystem = '' '',
         lower_bound = - 1000, upper_bound = 1000,
         stoich = [(''glc[u]'', - 1), (''Bt_glc[u]'', 1)]\<rparr>],
      metabolites =
       [\<lparr>met_id = ''Bt_g6p[c]'', compartment = ''c''\<rparr>, \<lparr>met_id = ''Bt_f6p[c]'', compartment = ''c''\<rparr>,
        \<lparr>met_id = ''Bt_glc[u]'', compartment = ''u''\<rparr>, \<lparr>met_id = ''Bt_glc[c]'', compartment = ''c''\<rparr>,
        \<lparr>met_id = ''glc[u]'', compartment = ''u''\<rparr>]\<rparr>"

definition organism_tagged_twice :: cobra_model where
  "organism_tagged_twice = \<lparr>reactions =
       [\<lparr>rxn_id = ''Bt_Bt_PGI'', rxn_name = ''isomerase'', subsystem = '' '',
         lower_bound = - 1000, upper_bound = 1000,
         stoich = [(''Bt_g6p[c]'', - 1), (''Bt_f6p[c]'', 1)]\<rparr>,
        \<lparr>rxn_id = ''Bt_Bt_GLCt'', rxn_name = ''glucose transport'', subsystem = '' '',
         lower_bound = - 1000, upper_bound = 1000,
         stoich = [(''Bt_glc[u]'', - 1), (''Bt_glc[c]'', 1)]\<rparr>,
        \<lparr>rxn_id = ''Bt_IEX_glc[u]tr'', rxn_name = ''Bt_IEX'', subsystem = '' '',
         lower_bound = - 1000, upper_bound = 1000,
         stoich = [(''glc[u]'', - 1), (''Bt_glc[u]'', 1)]\<rparr>],
      metabolites =
       [\<lparr>met_id = ''Bt_g6p[c]'', compartment = ''c''\<rparr>, \<lparr>met_id = ''Bt_f6p[c]'', compartment = ''c''\<rparr>,
        \<lparr>met_id = ''Bt_glc[u]'', compartment = ''u''\<rparr>, \<lparr>met_id = ''Bt_glc[c]'', compartment = ''c''\<rparr>,
        \<lparr>met_id = ''glc[u]'', compartment = ''u''\<rparr>]\<rparr>"

section \<open>Properties of the flux aggregation\<close>

lemma fold_flux_loop_body:
  "fold (flux_loop_body mnf mxf mnd mxd) xs acc =
     (\<lambda>k. if k \<in> set xs
           then Some \<bar>pyget mnd (diet_var_of k) 0 + pyget mxf k 0\<bar> else fst acc k,
      \<lambda>k. if k \<in> set xs
           then Some \<bar>pyget mxd (diet_var_of k) 0 + pyget mnf k 0\<bar> else fst (snd acc) k,
      \<lambda>k. if k \<in> set xs
           then Some (pyget mnf k 0 + pyget mnd (diet_var_of k) 0)
           else fst (snd (snd acc)) k,
      \<lambda>k. if k \<in> set xs
           then Some \<lparr>raw_min_flux_diet = pyget mnd (diet_var_of k) 0,
                      raw_max_flux_diet = pyget mxd (diet_var_of k) 0,
                      raw_min_flux_fecal = pyget mnf k 0,
                      raw_max_flux_fecal = pyget mxf k 0\<rparr>
           else snd (snd (snd acc)) k)"
proof (induction xs arbitrary: acc)
  case Nil
  show ?case by simp
next
  case (Cons x xs)
  show ?case
    unfolding fold_simps Cons.IH
    by (auto simp: flux_loop_body_def Let_def fun_eq_iff)
qed

text \<open>
  C1. For every reaction id of the aggregation universe (an exchange reaction of the
  sample that is also in the list of exchanges), net production is the absolute value of
  the diet-side minimum plus the fecal-side maximum, net uptake is the absolute value of
  the diet-side maximum plus the fecal-side minimum, with the diet-side id obtained by
  the two replacements and an absent FVA entry read as 0.
\<close>

theorem net_flux_arithmetic:
  assumes "rxn \<in> set fecal_rxns \<inter> set exchanges"
  shows "fst (analyze_metabolite_fluxes fecal_rxns exchanges mnf mxf mnd mxd) rxn =
           Some \<bar>pyget mnd (replace_str ''[fe]'' ''[d]''
                              (replace_str ''EX_'' ''Diet_EX_'' rxn)) 0
                 + pyget mxf rxn 0\<bar>
       \<and> fst (snd (analyze_metabolite_fluxes fecal_rxns exchanges mnf mxf mnd mxd)) rxn =
           Some \<bar>pyget mxd (replace_str ''[fe]'' ''[d]''
                              (replace_str ''EX_'' ''Diet_EX_'' rxn)) 0
                 + pyget mnf rxn 0\<bar>"
  using assms
  by (simp add: analyze_metabolite_fluxes_def fold_flux_loop_body diet_var_of_def)

theorem net_flux_arithmetic_witness:
  "''EX_ac[fe]'' \<in> set [''EX_ac[fe]''] \<inter> set [''EX_ac[fe]'', ''EX_but[fe]'']
   \<and> fst (analyze_metabolite_fluxes [''EX_ac[fe]''] [''EX_ac[fe]'', ''EX_but[fe]'']
            Map.empty [''EX_ac[fe]'' \<mapsto> 2] [''Diet_EX_ac[d]'' \<mapsto> - 5] Map.empty)
       ''EX_ac[fe]'' = Some 3
   \<and> fst (snd (analyze_metabolite_fluxes [''EX_ac[fe]''] [''EX_ac[fe]'', ''EX_but[fe]'']
            Map.empty [''EX_ac[fe]'' \<mapsto> 2] [''Diet_EX_ac[d]'' \<mapsto> - 5] Map.empty))
       ''EX_ac[fe]'' = Some 0"
  using net_flux_arithmetic [of "''EX_ac[fe]''" "[''EX_ac[fe]'']"
      "[''EX_ac[fe]'', ''EX_but[fe]'']" Map.empty "[''EX_ac[fe]'' \<mapsto> 2]"
      "[''Diet_EX_ac[d]'' \<mapsto> - 5]" Map.empty]
  by (simp add: pyget_def)

lemma dom_analyze_metabolite_fluxes:
  "dom (fst (analyze_metabolite_fluxes f e mnf mxf mnd mxd)) = set f \<inter> set e"
  "dom (fst (snd (analyze_metabolite_fluxes f e mnf mxf mnd mxd))) = set f \<inter> set e"
  by (auto simp: analyze_metabolite_fluxes_def fold_flux_loop_body dom_def)

text \<open>
  C7. The claim says that every FVA value of magnitude below 1e-7 is floored to zero
  before the aggregation. The code compares and drops the result (line 193), so nothing
  is floored: a fecal maximum of 1e-9 with all other entries absent gives a net
  production of 1e-9, and the raw record keeps 1e-9 as well.
\<close>

theorem small_flux_not_floored:
  "fst (analyze_metabolite_fluxes [''EX_ac[fe]''] [''EX_ac[fe]'']
          Map.empty [''EX_ac[fe]'' \<mapsto> 1 / 10 ^ 9] Map.empty Map.empty) ''EX_ac[fe]''
     = Some (1 / 10 ^ 9)
   \<and> \<bar>1 / 10 ^ 9 :: real\<bar> < tol \<and> (1 / 10 ^ 9 :: real) \<noteq> 0
   \<and> map_option raw_max_flux_fecal
       (snd (snd (snd (analyze_metabolite_fluxes [''EX_ac[fe]''] [''EX_ac[fe]'']
          Map.empty [''EX_ac[fe]'' \<mapsto> 1 / 10 ^ 9] Map.empty Map.empty))) ''EX_ac[fe]'')
     = Some (1 / 10 ^ 9)"
  unfolding analyze_metabolite_fluxes_def fold_flux_loop_body
  by (simp add: pyget_def tol_def diet_var_of_def)

subsection \<open>The exchange universe\<close>

lemma startswith_iff: "startswith s p \<longleftrightarrow> (\<exists>t. s = p @ t)"
  by (induction s p rule: startswith.induct) auto

lemma replace_e_fe_nil: "replace_str ''[e]'' ''[fe]'' m = [] \<longleftrightarrow> m = []"
  by (cases m) auto

lemma replace_e_fe_cons:
  "replace_str ''[e]'' ''[fe]'' m = x # xs \<Longrightarrow> x \<noteq> CHR ''['' \<Longrightarrow>
     \<exists>cs. m = x # cs \<and> replace_str ''[e]'' ''[fe]'' cs = xs"
  by (cases m) (auto split: if_splits)

lemma replace_e_fe_bracket:
  assumes "replace_str ''[e]'' ''[fe]'' m = ''[fe]''"
  shows "m = ''[e]'' \<or> m = ''[fe]''"
proof (cases m)
  case Nil
  with assms show ?thesis by simp
next
  case (Cons c cs)
  show ?thesis
  proof (cases "startswith (c # cs) ''[e]''")
    case True
    then obtain t where t: "c # cs = ''[e]'' @ t" by (auto simp: startswith_iff)
    with assms Cons True have "replace_str ''[e]'' ''[fe]'' t = []" by auto
    then have "t = []" by (simp add: replace_e_fe_nil)
    with t Cons show ?thesis by simp
  next
    case False
    with assms Cons have c: "c = CHR ''[''" and r: "replace_str ''[e]'' ''[fe]'' cs = ''fe]''"
      by (auto split: if_splits)
    from replace_e_fe_cons [OF r] obtain c1 where c1: "cs = CHR ''f'' # c1"
      and r1: "replace_str ''[e]'' ''[fe]'' c1 = ''e]''" by auto
    from replace_e_fe_cons [OF r1] obtain c2 where c2: "c1 = CHR ''e'' # c2"
      and r2: "replace_str ''[e]'' ''[fe]'' c2 = '']''" by auto
    from replace_e_fe_cons [OF r2] obtain c3 where c3: "c2 = CHR '']'' # c3"
      and r3: "replace_str ''[e]'' ''[fe]'' c3 = []" by auto
    from r3 have "c3 = []" by (simp add: replace_e_fe_nil)
    with c c1 c2 c3 Cons show ?thesis by simp
  qed
qed

lemma replace_e_fe_suffix:
  "CHR ''['' \<notin> set w \<Longrightarrow> replace_str ''[e]'' ''[fe]'' m = w @ ''[fe]'' \<Longrightarrow>
     m = w @ ''[e]'' \<or> m = w @ ''[fe]''"
proof (induction w arbitrary: m)
  case Nil
  then show ?case using replace_e_fe_bracket [of m] by simp
next
  case (Cons x w)
  from Cons.prems have "replace_str ''[e]'' ''[fe]'' m = x # (w @ ''[fe]'')" and "x \<noteq> CHR ''[''"
    by auto
  from replace_e_fe_cons [OF this] obtain cs where m: "m = x # cs"
    and r: "replace_str ''[e]'' ''[fe]'' cs = w @ ''[fe]''" by blast
  from Cons.IH [OF _ r] Cons.prems(1) m show ?case by auto
qed

lemma exchange_id_origin:
  assumes "CHR ''['' \<notin> set w" and "''EX_'' @ w @ ''[fe]'' \<in> set (exchanges_of ex_mets)"
  shows "w @ ''[e]'' \<in> set ex_mets \<and> w @ ''[e]'' \<noteq> ''biomass[e]'' \<or> w @ ''[fe]'' \<in> set ex_mets"
proof -
  from assms(2) obtain m where m: "m \<in> set ex_mets" "m \<noteq> ''biomass[e]''"
    and "''EX_'' @ w @ ''[fe]'' = ''EX_'' @ replace_str ''[e]'' ''[fe]'' m"
    by (auto simp: exchanges_of_def)
  then have "replace_str ''[e]'' ''[fe]'' m = w @ ''[fe]''" by simp
  from replace_e_fe_suffix [OF assms(1) this] m show ?thesis by auto
qed

text \<open>
  C10, as the code has it. The list of exchanges holds \<open>EX_\<close> followed by the id with
  every \<open>[e]\<close> replaced by \<open>[fe]\<close>, for each id of the input other than \<open>biomass[e]\<close>.
  The id \<open>EX_biomass[fe]\<close> is in the list, and so can be a key of the net production
  and net uptake results, only when the input list itself holds the id \<open>biomass[fe]\<close>;
  the exchange of the community biomass, \<open>EX_microbeBiomass[fe]\<close>, only when the input
  holds \<open>microbeBiomass[e]\<close> or \<open>microbeBiomass[fe]\<close>.
\<close>

theorem exchange_universe:
  "(x \<in> set (exchanges_of ex_mets) \<longleftrightarrow>
      (\<exists>m. m \<in> set ex_mets \<and> m \<noteq> ''biomass[e]'' \<and> x = ''EX_'' @ replace_str ''[e]'' ''[fe]'' m))
   \<and> (''biomass[fe]'' \<notin> set ex_mets \<longrightarrow>
        ''EX_biomass[fe]'' \<notin> set (exchanges_of ex_mets)
      \<and> ''EX_biomass[fe]'' \<notin> dom (fst (analyze_metabolite_fluxes fecal_rxns
              (exchanges_of ex_mets) mnf mxf mnd mxd))
      \<and> ''EX_biomass[fe]'' \<notin> dom (fst (snd (analyze_metabolite_fluxes fecal_rxns
              (exchanges_of ex_mets) mnf mxf mnd mxd))))
   \<and> (''microbeBiomass[e]'' \<notin> set ex_mets \<and> ''microbeBiomass[fe]'' \<notin> set ex_mets \<longrightarrow>
        ''EX_microbeBiomass[fe]'' \<notin> set (exchanges_of ex_mets)
      \<and> ''EX_microbeBiomass[fe]'' \<notin> dom (fst (analyze_metabolite_fluxes fecal_rxns
              (exchanges_of ex_mets) mnf mxf mnd mxd))
      \<and> ''EX_microbeBiomass[fe]'' \<notin> dom (fst (snd (analyze_metabolite_fluxes fecal_rxns
              (exchanges_of ex_mets) mnf mxf mnd mxd))))"
proof -
  have a: "x \<in> set (exchanges_of ex_mets) \<longleftrightarrow>
      (\<exists>m. m \<in> set ex_mets \<and> m \<noteq> ''biomass[e]'' \<and> x = ''EX_'' @ replace_str ''[e]'' ''[fe]'' m)"
    by (auto simp: exchanges_of_def)
  have b: "''EX_biomass[fe]'' \<notin> set (exchanges_of ex_mets)" if "''biomass[fe]'' \<notin> set ex_mets"
    using exchange_id_origin [of "''biomass''" ex_mets] that by auto
  have c: "''EX_microbeBiomass[fe]'' \<notin> set (exchanges_of ex_mets)"
    if "''microbeBiomass[e]'' \<notin> set ex_mets" "''microbeBiomass[fe]'' \<notin> set ex_mets"
    using exchange_id_origin [of "''microbeBiomass''" ex_mets] that by auto
  show ?thesis using a b c by (simp add: dom_analyze_metabolite_fluxes)
qed

theorem exchange_universe_witness:
  "''biomass[fe]'' \<notin> set [''ac[e]'', ''biomass[e]'']
   \<and> ''microbeBiomass[e]'' \<notin> set [''ac[e]'', ''biomass[e]'']
   \<and> ''microbeBiomass[fe]'' \<notin> set [''ac[e]'', ''biomass[e]'']
   \<and> exchanges_of [''ac[e]'', ''biomass[e]''] = [''EX_ac[fe]'']
   \<and> ''EX_biomass[fe]'' \<notin> dom (fst (analyze_metabolite_fluxes
        [''EX_ac[fe]'', ''EX_biomass[fe]'', ''EX_microbeBiomass[fe]'']
        (exchanges_of [''ac[e]'', ''biomass[e]'']) Map.empty Map.empty Map.empty Map.empty))
   \<and> ''EX_microbeBiomass[fe]'' \<notin> dom (fst (analyze_metabolite_fluxes
        [''EX_ac[fe]'', ''EX_biomass[fe]'', ''EX_microbeBiomass[fe]'']
        (exchanges_of [''ac[e]'', ''biomass[e]'']) Map.empty Map.empty Map.empty Map.empty))"
  using exchange_universe [of "''EX_ac[fe]''" "[''ac[e]'', ''biomass[e]'']"
      "[''EX_ac[fe]'', ''EX_biomass[fe]'', ''EX_microbeBiomass[fe]'']"
      Map.empty Map.empty Map.empty Map.empty]
  by (simp add: exchanges_of_def)

text \<open>
  The claim as stated, for any input list, fails on the list that holds \<open>biomass[fe]\<close>,
  and for the exchange of the community biomass on the list that holds
  \<open>microbeBiomass[e]\<close>: the guard of line 236 looks for \<open>biomass[e]\<close> only.
\<close>

theorem exchange_universe_counterexample:
  "''EX_biomass[fe]'' \<in> set (exchanges_of [''biomass[fe]''])
   \<and> ''EX_biomass[fe]'' \<in> dom (fst (analyze_metabolite_fluxes [''EX_biomass[fe]'']
        (exchanges_of [''biomass[fe]'']) Map.empty Map.empty Map.empty Map.empty))
   \<and> ''EX_biomass[fe]'' \<in> dom (fst (snd (analyze_metabolite_fluxes [''EX_biomass[fe]'']
        (exchanges_of [''biomass[fe]'']) Map.empty Map.empty Map.empty Map.empty)))
   \<and> ''EX_microbeBiomass[fe]'' \<in> set (exchanges_of [''microbeBiomass[e]''])
   \<and> ''EX_microbeBiomass[fe]'' \<in> dom (fst (analyze_metabolite_fluxes
        [''EX_microbeBiomass[fe]''] (exchanges_of [''microbeBiomass[e]''])
        Map.empty Map.empty Map.empty Map.empty))"
  by (simp add: exchanges_of_def dom_analyze_metabolite_fluxes)

section \<open>Properties of the network model\<close>

lemma put_by_id_ids: "rxn_id r' = rid \<Longrightarrow> map rxn_id (put_by_id rid r' rs) = map rxn_id rs"
  by (induction rs) auto

lemma put_by_id_length: "length (put_by_id rid r' rs) = length rs"
  by (induction rs) auto

lemma put_by_id_other:
  "i < length rs \<Longrightarrow> rxn_id (rs ! i) \<noteq> rid \<Longrightarrow> put_by_id rid r' rs ! i = rs ! i"
  by (induction rs arbitrary: i) (auto simp: nth_Cons split: nat.splits)

lemma get_by_id_put_same:
  "rid \<in> set (rxn_ids rs) \<Longrightarrow> rxn_id r' = rid \<Longrightarrow> get_by_id (put_by_id rid r' rs) rid = Some r'"
  by (induction rs) (auto simp: get_by_id_def rxn_ids_def)

lemma get_by_id_put_other:
  "rxn_id r' = rid \<Longrightarrow> other \<noteq> rid \<Longrightarrow> get_by_id (put_by_id rid r' rs) other = get_by_id rs other"
  by (induction rs) (auto simp: get_by_id_def)

lemma get_by_id_Some: "get_by_id rs rid = Some r \<Longrightarrow> rxn_id r = rid \<and> r \<in> set rs"
  by (induction rs) (auto simp: get_by_id_def split: if_splits)

lemma get_by_id_in: "rid \<in> set (rxn_ids rs) \<Longrightarrow> \<exists>r. get_by_id rs rid = Some r"
  by (induction rs) (auto simp: get_by_id_def rxn_ids_def)

lemma modify_by_id_frame:
  assumes "modify_by_id rid f rs = Inr rs'"
    and "\<forall>r r'. f r = Inr r' \<longrightarrow> rxn_id r' = rxn_id r"
  shows "map rxn_id rs' = map rxn_id rs"
    and "\<And>i. i < length rs \<Longrightarrow> rxn_id (rs ! i) \<noteq> rid \<Longrightarrow> rs' ! i = rs ! i"
    and "\<And>other. other \<noteq> rid \<Longrightarrow> get_by_id rs' other = get_by_id rs other"
    and "\<exists>r r'. get_by_id rs rid = Some r \<and> f r = Inr r' \<and> get_by_id rs' rid = Some r'"
proof -
  from assms(1) obtain r r' where r: "get_by_id rs rid = Some r" and f: "f r = Inr r'"
    and rs': "rs' = put_by_id rid r' rs"
    by (auto simp: modify_by_id_def split: option.splits sum.splits)
  from r have rid: "rxn_id r = rid" "rid \<in> set (rxn_ids rs)"
    using get_by_id_Some [OF r] by (auto simp: rxn_ids_def)
  from assms(2) f rid have r'id: "rxn_id r' = rid" by simp
  show "map rxn_id rs' = map rxn_id rs" by (simp add: rs' put_by_id_ids r'id)
  show "\<And>i. i < length rs \<Longrightarrow> rxn_id (rs ! i) \<noteq> rid \<Longrightarrow> rs' ! i = rs ! i"
    by (simp add: rs' put_by_id_other)
  show "\<And>other. other \<noteq> rid \<Longrightarrow> get_by_id rs' other = get_by_id rs other"
    by (simp add: rs' get_by_id_put_other r'id)
  show "\<exists>r r'. get_by_id rs rid = Some r \<and> f r = Inr r' \<and> get_by_id rs' rid = Some r'"
    using r f by (auto simp: rs' get_by_id_put_same rid r'id)
qed

section \<open>Properties of the community builder\<close>

lemma get_by_id_append:
  "rid \<notin> set (rxn_ids rs) \<Longrightarrow> rxn_id r = rid \<Longrightarrow> get_by_id (rs @ r # rest) rid = Some r"
  by (induction rs) (auto simp: get_by_id_def rxn_ids_def)

lemma put_by_id_append:
  "rid \<notin> set (rxn_ids rs) \<Longrightarrow> rxn_id r = rid \<Longrightarrow>
     put_by_id rid r' (rs @ r # rest) = rs @ r' # rest"
  by (induction rs) (auto simp: rxn_ids_def)

lemma modify_by_id_append:
  "rid \<notin> set (rxn_ids rs) \<Longrightarrow> rxn_id r = rid \<Longrightarrow>
     modify_by_id rid f (rs @ r # rest) =
       (case f r of Inl e \<Rightarrow> Inl e | Inr r' \<Rightarrow> Inr (rs @ r' # rest))"
  by (simp add: modify_by_id_def get_by_id_append put_by_id_append split: sum.splits)

lemma dict_set_fresh: "k \<notin> fst ` set d \<Longrightarrow> dict_set k v d = d @ [(k, v)]"
  by (induction d) auto

lemma add_coef_fresh: "k \<notin> fst ` set s \<Longrightarrow> add_coef k c s = s @ [(k, c)]"
  by (induction s) auto

lemma fold_add_coef_fresh:
  "distinct (map fst adds) \<Longrightarrow> fst ` set adds \<inter> fst ` set s = {} \<Longrightarrow>
     fold (\<lambda>kv. add_coef (fst kv) (snd kv)) adds s = s @ adds"
proof (induction adds arbitrary: s)
  case Nil
  show ?case by simp
next
  case (Cons kv adds)
  from Cons.prems have fresh: "fst kv \<notin> fst ` set s" by auto
  have "fst ` set adds \<inter> fst ` set (s @ [kv]) = {}"
    using Cons.prems by (auto simp: image_iff)
  with Cons.IH [of "s @ [kv]"] Cons.prems(1) fresh show ?case
    by (simp add: add_coef_fresh)
qed

lemma biomass_loop_distinct:
  "distinct (map fst rows) \<Longrightarrow>
   (\<forall>row \<in> set rows. fst row @ ''_biomass[c]'' \<notin> fst ` set (fst acc)) \<Longrightarrow>
   biomass_loop rows mets acc =
     (fst acc @ biomass_terms rows mets,
      snd acc @ map (\<lambda>row. fst row @ ''_biomass[c]'')
                    (filter (\<lambda>row. fst row @ ''_biomass[c]'' \<notin> set mets) rows))"
proof (induction rows arbitrary: acc)
  case Nil
  show ?case by (simp add: biomass_terms_def)
next
  case (Cons row rows)
  let ?k = "fst row @ ''_biomass[c]''"
  have fresh: "?k \<notin> fst ` set (fst acc)" using Cons.prems(2) by simp
  have d: "distinct (map fst rows)" using Cons.prems(1) by simp
  have later: "\<forall>r \<in> set rows. fst r @ ''_biomass[c]'' \<noteq> ?k"
    using Cons.prems(1) by (auto simp: image_iff)
  show ?case
  proof (cases "?k \<in> set mets")
    case True
    have "\<forall>r \<in> set rows. fst r @ ''_biomass[c]'' \<notin>
            fst ` set (fst (dict_set ?k (- snd row) (fst acc), snd acc))"
      using Cons.prems(2) later by (auto simp: dict_set_fresh [OF fresh])
    from Cons.IH [OF d this] True show ?thesis
      by (simp add: Let_def dict_set_fresh [OF fresh] biomass_terms_def)
  next
    case False
    have "\<forall>r \<in> set rows. fst r @ ''_biomass[c]'' \<notin> fst ` set (fst (fst acc, snd acc @ [?k]))"
      using Cons.prems(2) by simp
    from Cons.IH [OF d this] False show ?thesis
      by (simp add: Let_def biomass_terms_def)
  qed
qed

lemma biomass_terms_distinct:
  "distinct (map fst rows) \<Longrightarrow> distinct (map fst (biomass_terms rows mets))"
  by (induction rows) (auto simp: biomass_terms_def image_iff)

lemma biomass_id_not_product: "x @ ''_biomass[c]'' \<noteq> ''microbeBiomass[u]''"
proof
  assume "x @ ''_biomass[c]'' = ''microbeBiomass[u]''"
  then have "rev (x @ ''_biomass[c]'') = rev ''microbeBiomass[u]''" by simp
  then show False by simp
qed

lemma biomass_terms_keys:
  "fst ` set (biomass_terms rows mets) \<subseteq> set mets"
  "''microbeBiomass[u]'' \<notin> fst ` set (biomass_terms rows mets)"
  using biomass_id_not_product by (auto simp: biomass_terms_def)

lemma biomass_terms_nonzero:
  "\<forall>row \<in> set rows. snd row \<noteq> 0 \<Longrightarrow>
     filter (\<lambda>kv. snd kv \<noteq> 0) (biomass_terms rows mets) = biomass_terms rows mets"
  by (induction rows) (auto simp: biomass_terms_def)

lemma filtered_id_absent:
  "P rid \<Longrightarrow> rid \<notin> set (rxn_ids (filter (\<lambda>r. \<not> P (rxn_id r)) rs))"
  by (auto simp: rxn_ids_def)

lemma biomass_ids_removed:
  "''communityBiomass'' \<notin> set (rxn_ids (filter (\<lambda>r. \<not> str_contains ''Biomass'' (rxn_id r)) rs))"
  "''EX_microbeBiomass[fe]'' \<notin> set (rxn_ids (filter (\<lambda>r. \<not> str_contains ''Biomass'' (rxn_id r)) rs))"
  "''UFEt_microbeBiomass'' \<notin> set (rxn_ids (filter (\<lambda>r. \<not> str_contains ''Biomass'' (rxn_id r)) rs))"
  by (rule filtered_id_absent, simp)+

lemma add_metabolite_reactions: "reactions (add_metabolite m M) = reactions M"
  by (simp add: add_metabolite_def)

lemma add_metabolite_ids: "set (met_ids (add_metabolite m M)) = insert (met_id m) (set (met_ids M))"
  by (auto simp: add_metabolite_def met_ids_def)

lemma add_reaction_metabolites: "metabolites (add_reaction r M) = metabolites M"
  by (simp add: add_reaction_def)

lemma add_reaction_fresh:
  "rxn_id r \<notin> set (rxn_ids (reactions M)) \<Longrightarrow> reactions (add_reaction r M) = reactions M @ [r]"
  by (simp add: add_reaction_def)

text \<open>
  C4. For an abundance column with one row per organism, \<open>com_biomass\<close> returns, and
  the reaction \<open>communityBiomass\<close> of the result has bounds 0 and 10000 and a
  stoichiometry made of one term \<open>- abundance\<close> on \<open>organism_biomass[c]\<close> for each row
  whose abundance exceeds the threshold and whose biomass metabolite the network has, in
  row order, followed by coefficient 1 on \<open>microbeBiomass[u]\<close>, and nothing else. The
  organisms above the threshold whose biomass metabolite is missing are reported and the
  call still returns.
\<close>

theorem community_biomass_stoichiometry:
  assumes "distinct (map fst abun)"
  shows "\<exists>model' r.
      com_biomass model abun =
        Inr (model',
             map (\<lambda>row. fst row @ ''_biomass[c]'')
                 (filter (\<lambda>row. fst row @ ''_biomass[c]'' \<notin> set (met_ids model))
                    (filter (\<lambda>row. snd row > ABUNDANCE_THRESHOLD) abun)))
    \<and> get_by_id (reactions model') ''communityBiomass'' = Some r
    \<and> lower_bound r = 0 \<and> upper_bound r = 10000
    \<and> stoich r =
        map (\<lambda>row. (fst row @ ''_biomass[c]'', - snd row))
            (filter (\<lambda>row. fst row @ ''_biomass[c]'' \<in> set (met_ids model))
               (filter (\<lambda>row. snd row > ABUNDANCE_THRESHOLD) abun))
        @ [(''microbeBiomass[u]'', 1)]"
proof -
  let ?kept = "filter (\<lambda>r. \<not> str_contains ''Biomass'' (rxn_id r)) (reactions model)"
  let ?rows = "filter (\<lambda>row. snd row > ABUNDANCE_THRESHOLD) abun"
  let ?terms = "biomass_terms ?rows (met_ids model)"
  let ?log = "map (\<lambda>row. fst row @ ''_biomass[c]'')
                 (filter (\<lambda>row. fst row @ ''_biomass[c]'' \<notin> set (met_ids model)) ?rows)"
  let ?cb_new = "create_rxn ''communityBiomass'' ''communityBiomass'' '' '' (0, 10000)"
  let ?cb_terms = "?cb_new\<lparr>stoich := ?terms\<rparr>"
  let ?cb_full = "?cb_new\<lparr>stoich := ?terms @ [(''microbeBiomass[u]'', 1)]\<rparr>"
  let ?ex_new = "create_rxn ''EX_microbeBiomass[fe]'' ''EX_microbeBiomass[fe]'' '' '' (- 10000, 10000)"
  let ?ex_full = "?ex_new\<lparr>stoich := [(''microbeBiomass[fe]'', - 1)]\<rparr>"
  define model1 where "model1 = remove_reactions (\<lambda>r. str_contains ''Biomass'' (rxn_id r)) model"
  define model2 where "model2 = add_reaction ?cb_new model1"
  have d: "distinct (map fst ?rows)" using assms by (simp add: distinct_map_filter)
  have nz: "\<forall>row \<in> set ?rows. snd row \<noteq> 0" by (auto simp: ABUNDANCE_THRESHOLD_def)
  have m1: "reactions model1 = ?kept" "metabolites model1 = metabolites model"
    by (simp_all add: model1_def remove_reactions_def)
  have m2: "reactions model2 = ?kept @ [?cb_new]" "metabolites model2 = metabolites model"
    using biomass_ids_removed(1) [of "reactions model"]
    by (simp_all add: model2_def add_reaction_def m1 create_rxn_def)
  have mets2: "met_ids model2 = met_ids model" by (simp add: met_ids_def m2)
  have loop: "biomass_loop ?rows (met_ids model2) ([], []) = (?terms, ?log)"
    using biomass_loop_distinct [OF d, where acc = "([], [])" and mets = "met_ids model"]
    by (simp add: mets2)
  define model3 where "model3 = model2\<lparr>reactions := ?kept @ [?cb_terms]\<rparr>"
  have stoich1: "rxn_add_metabolites ?terms ?cb_new = ?cb_terms"
    using fold_add_coef_fresh [OF biomass_terms_distinct [OF d], where s = "[]" and mets1 = "met_ids model"]
      biomass_terms_nonzero [OF nz]
    by (simp add: rxn_add_metabolites_def create_rxn_def)
  have s3: "reaction_add_metabolites ''communityBiomass'' ?terms model2 = Inr model3"
    using biomass_terms_keys(1) [of ?rows "met_ids model"] stoich1
    by (auto simp: reaction_add_metabolites_def list_ex_iff mets2 m2 model3_def
          modify_by_id_append biomass_ids_removed create_rxn_def)
  define model4 where
    "model4 = add_metabolite \<lparr>met_id = ''microbeBiomass[u]'', compartment = ''u''\<rparr> model3"
  have m4: "reactions model4 = ?kept @ [?cb_terms]" "''microbeBiomass[u]'' \<in> set (met_ids model4)"
    by (auto simp: model4_def add_metabolite_def model3_def met_ids_def)
  define model5 where "model5 = model4\<lparr>reactions := ?kept @ [?cb_full]\<rparr>"
  have stoich2: "rxn_add_metabolites [(''microbeBiomass[u]'', 1)] ?cb_terms = ?cb_full"
    using add_coef_fresh [OF biomass_terms_keys(2) [of ?rows "met_ids model"], of 1]
      biomass_terms_nonzero [OF nz, of "met_ids model"]
    by (simp add: rxn_add_metabolites_def create_rxn_def)
  have s5: "reaction_add_metabolites ''communityBiomass'' [(''microbeBiomass[u]'', 1)] model4
              = Inr model5"
    using m4(2) stoich2
    by (simp add: reaction_add_metabolites_def m4(1) model5_def
          modify_by_id_append biomass_ids_removed create_rxn_def)
  have mets5: "''microbeBiomass[u]'' \<in> set (met_ids model5)"
    using m4(2) by (simp add: model5_def met_ids_def)
  define model6 where "model6 = add_reaction ?ex_new model5"
  have ex_fresh: "''EX_microbeBiomass[fe]'' \<notin> set (rxn_ids (?kept @ [?cb_full]))"
    using biomass_ids_removed(2) [of "reactions model"] by (simp add: rxn_ids_def create_rxn_def)
  have m6: "reactions model6 = ?kept @ [?cb_full, ?ex_new]"
    "''microbeBiomass[u]'' \<in> set (met_ids model6)"
    using ex_fresh mets5
    by (simp_all add: model6_def add_reaction_fresh add_reaction_metabolites met_ids_def
          model5_def create_rxn_def)
  define model7 where
    "model7 = add_metabolite \<lparr>met_id = ''microbeBiomass[fe]'', compartment = ''fe''\<rparr> model6"
  have m7: "reactions model7 = ?kept @ [?cb_full, ?ex_new]"
    "''microbeBiomass[fe]'' \<in> set (met_ids model7)"
    "''microbeBiomass[u]'' \<in> set (met_ids model7)"
    using m6 by (simp_all add: model7_def add_metabolite_reactions add_metabolite_ids)
  define model8 where "model8 = model7\<lparr>reactions := ?kept @ [?cb_full, ?ex_full]\<rparr>"
  have s8: "reaction_add_metabolites ''EX_microbeBiomass[fe]'' [(''microbeBiomass[fe]'', - 1)] model7
              = Inr model8"
    using m7(2) ex_fresh
    by (simp add: reaction_add_metabolites_def m7(1) model8_def rxn_add_metabolites_def
          modify_by_id_append [where rest = "[]" and rs = "xs @ [x]" for xs x, simplified]
          create_rxn_def)
  have uf_fresh: "''UFEt_microbeBiomass'' \<notin> set (rxn_ids (reactions model8))"
    using biomass_ids_removed(3) [of "reactions model"]
    by (simp add: model8_def rxn_ids_def create_rxn_def)
  have "\<exists>model9 uf.
          add_transport ''UFEt_microbeBiomass'' ''UFEt_microbeBiomass''
            ''microbeBiomass[u]'' ''microbeBiomass[fe]'' TRANSPORT_BOUNDS model8 = Inr model9
        \<and> reactions model9 = ?kept @ ?cb_full # [?ex_full, uf]"
    using uf_fresh by (simp add: add_transport_def Let_def add_metabolite_def model8_def)
  then obtain model9 uf where
    t9: "add_transport ''UFEt_microbeBiomass'' ''UFEt_microbeBiomass''
           ''microbeBiomass[u]'' ''microbeBiomass[fe]'' TRANSPORT_BOUNDS model8 = Inr model9"
    and m9: "reactions model9 = ?kept @ ?cb_full # [?ex_full, uf]"
    by blast
  have res: "com_biomass model abun = Inr (model9, ?log)"
    unfolding com_biomass_def Let_def
    using s3 s5 s8 loop t9
    by (simp add: model1_def [symmetric] model2_def [symmetric] model4_def [symmetric]
          model6_def [symmetric] model7_def [symmetric])
  from m9 have g: "get_by_id (reactions model9) ''communityBiomass'' = Some ?cb_full"
    by (simp add: get_by_id_append biomass_ids_removed create_rxn_def)
  show ?thesis
    apply (rule exI [of _ model9], rule exI [of _ ?cb_full])
    using res g by (simp add: create_rxn_def biomass_terms_def)
qed

theorem community_biomass_stoichiometry_witness:
  "distinct (map fst [(''A'', 6 / 10 :: real), (''B'', 3 / 10), (''C'', 0), (''D'', 1 / 10)])
   \<and> (\<exists>model' r.
        com_biomass threshold_example [(''A'', 6 / 10), (''B'', 3 / 10), (''C'', 0), (''D'', 1 / 10)]
          = Inr (model', [''D_biomass[c]''])
      \<and> get_by_id (reactions model') ''communityBiomass'' = Some r
      \<and> lower_bound r = 0 \<and> upper_bound r = 10000
      \<and> stoich r = [(''A_biomass[c]'', - (6 / 10)), (''B_biomass[c]'', - (3 / 10)),
                     (''microbeBiomass[u]'', 1)])"
  using community_biomass_stoichiometry
    [of "[(''A'', 6 / 10), (''B'', 3 / 10), (''C'', 0), (''D'', 1 / 10)]" threshold_example]
  by (simp add: threshold_example_def met_ids_def ABUNDANCE_THRESHOLD_def)

text \<open>
  C2. The claim says that one strict comparison with 1e-7 decides presence everywhere.
  \<open>com_biomass\<close> keeps the rows with abundance \<open>> 1e-7\<close>, but \<open>build_sample_gem\<close>
  prunes the organisms with abundance \<open>< 1e-7\<close> and lists as present those with
  \<open>>= 1e-7\<close>. An organism \<open>A\<close> at exactly 1e-7 is therefore not pruned: its reaction and
  metabolites stay in the sample network and it is handed on as present, while the
  community biomass reaction has no term for it.
\<close>

theorem threshold_boundary_mismatch:
  "zero_microbe [(''A'', 1 / 10 ^ 7), (''B'', 3 / 10), (''C'', 0)] = [''C'']
   \<and> present_microbe [(''A'', 1 / 10 ^ 7), (''B'', 3 / 10), (''C'', 0)] = [''A'', ''B'']
   \<and> filter (\<lambda>row. snd row > ABUNDANCE_THRESHOLD) [(''A'', 1 / 10 ^ 7), (''B'', 3 / 10), (''C'', 0)]
       = [(''B'', 3 / 10)]
   \<and> (case build_sample_gem threshold_example [(''A'', 1 / 10 ^ 7), (''B'', 3 / 10), (''C'', 0)] of
         Inl e \<Rightarrow> False
       | Inr res \<Rightarrow>
           snd res = [''A'', ''B'']
         \<and> ''A_biomass[c]'' \<in> set (met_ids (fst res))
         \<and> ''A_biomass525'' \<in> set (rxn_ids (reactions (fst res)))
         \<and> ''C_biomass[c]'' \<notin> set (met_ids (fst res))
         \<and> map_option stoich (get_by_id (reactions (fst res)) ''communityBiomass'')
             = Some [(''B_biomass[c]'', - (3 / 10)), (''microbeBiomass[u]'', 1)])"
  by (simp add: zero_microbe_def present_microbe_def ABUNDANCE_THRESHOLD_def
        build_sample_gem_def prune_zero_abundance_microbe_def threshold_example_def
        com_biomass_def remove_reactions_def add_reaction_def add_metabolite_def
        add_transport_def create_rxn_def reaction_add_metabolites_def rxn_add_metabolites_def
        modify_by_id_def get_by_id_def rxn_ids_def met_ids_def set_lower_bound_def
        TRANSPORT_BOUNDS_def Let_def)

subsection \<open>Diet and fecal compartments\<close>

lemma get_by_id_None: "get_by_id rs t = None \<longleftrightarrow> t \<notin> set (rxn_ids rs)"
  by (induction rs) (auto simp: get_by_id_def rxn_ids_def)

lemma get_by_id_snoc_other: "t \<noteq> rxn_id r \<Longrightarrow> get_by_id (rs @ [r]) t = get_by_id rs t"
  by (induction rs) (auto simp: get_by_id_def)

lemma get_by_id_snoc_new:
  "t \<notin> set (rxn_ids rs) \<Longrightarrow> rxn_id r = t \<Longrightarrow> get_by_id (rs @ [r]) t = Some r"
  using get_by_id_append [of t rs r "[]"] by simp

lemma add_reaction_get_other:
  "t \<noteq> rxn_id r \<Longrightarrow> get_by_id (reactions (add_reaction r M)) t = get_by_id (reactions M) t"
  by (simp add: add_reaction_def get_by_id_snoc_other)

lemma add_reaction_get_new:
  "get_by_id (reactions M) (rxn_id r) = None \<Longrightarrow>
     get_by_id (reactions (add_reaction r M)) (rxn_id r) = Some r"
  by (simp add: add_reaction_def get_by_id_None get_by_id_snoc_new)

lemma add_reaction_has: "rxn_id r \<in> set (rxn_ids (reactions (add_reaction r M)))"
  by (simp add: add_reaction_def rxn_ids_def)

lemma reaction_add_metabolites_result:
  assumes "rid \<in> set (rxn_ids (reactions M))" and "fst ` set adds \<subseteq> set (met_ids M)"
  shows "\<exists>r. get_by_id (reactions M) rid = Some r
           \<and> reaction_add_metabolites rid adds M =
               Inr (M\<lparr>reactions := put_by_id rid (rxn_add_metabolites adds r) (reactions M)\<rparr>)"
proof -
  from get_by_id_in [OF assms(1)] obtain r where r: "get_by_id (reactions M) rid = Some r" ..
  have "\<not> list_ex (\<lambda>kv. fst kv \<notin> set (met_ids M)) adds"
    using assms(2) by (auto simp: list_ex_iff)
  with r show ?thesis
    by (simp add: reaction_add_metabolites_def modify_by_id_def)
qed

lemma rxn_add_metabolites_id: "rxn_id (rxn_add_metabolites adds r) = rxn_id r"
  by (simp add: rxn_add_metabolites_def)

lemma reaction_add_metabolites_get_other:
  assumes "reaction_add_metabolites rid adds M = Inr M'" and "t \<noteq> rid"
  shows "get_by_id (reactions M') t = get_by_id (reactions M) t"
proof -
  from assms(1) obtain rs where m: "modify_by_id rid (\<lambda>r. Inr (rxn_add_metabolites adds r)) (reactions M) = Inr rs"
    and M': "M' = M\<lparr>reactions := rs\<rparr>"
    by (auto simp: reaction_add_metabolites_def split: if_splits sum.splits)
  have "\<forall>r r'. (Inr (rxn_add_metabolites adds r) :: py_error + reaction) = Inr r' \<longrightarrow> rxn_id r' = rxn_id r"
    by (auto simp: rxn_add_metabolites_id)
  from modify_by_id_frame(3) [OF m this assms(2)] M' show ?thesis by simp
qed

lemma add_transport_returns:
  "rid \<notin> set (rxn_ids (reactions M)) \<Longrightarrow>
     \<exists>M'. add_transport rid name reactant product bounds M = Inr M'"
  by (simp add: add_transport_def Let_def)

lemma add_transport_get_other:
  "add_transport rid name reactant product bounds M = Inr M' \<Longrightarrow> t \<noteq> rid \<Longrightarrow>
     get_by_id (reactions M') t = get_by_id (reactions M) t"
  by (auto simp: add_transport_def Let_def add_metabolite_reactions get_by_id_snoc_other
        rxn_add_metabolites_id create_rxn_def split: if_splits)

lemma add_transport_get_new:
  assumes "add_transport rid name reactant product bounds M = Inr M'" and "reactant \<noteq> product"
  shows "get_by_id (reactions M') rid =
           Some \<lparr>rxn_id = rid, rxn_name = name, subsystem = '' '',
                 lower_bound = fst bounds, upper_bound = snd bounds,
                 stoich = [(reactant, - 1), (product, 1)]\<rparr>"
  using assms
  by (auto simp: add_transport_def Let_def add_metabolite_reactions
        get_by_id_snoc_new rxn_add_metabolites_def create_rxn_def split: if_splits)

lemma add_exchange_reaction_unfold:
  assumes "mid = b @ ''['' @ cpt @ '']''" and "mid \<notin> set EM"
    and "r = create_rxn (''EX_'' @ mid) (mid @ '' '' @ label @ '' exchange'') '' '' bounds"
    and "M2 = add_metabolite \<lparr>met_id = mid, compartment = cpt\<rparr> (add_reaction r M)"
  shows "add_exchange_reaction b EM M bounds cpt label =
           reaction_add_metabolites (''EX_'' @ mid) [(mid, - 1)] M2"
  using assms by (simp add: add_exchange_reaction_def Let_def)

lemma add_exchange_reaction_total:
  "\<exists>M'. add_exchange_reaction b EM M bounds cpt label = Inr M'"
proof (cases "b @ ''['' @ cpt @ '']'' \<in> set EM")
  case True
  then show ?thesis by (simp add: add_exchange_reaction_def)
next
  case False
  define mid where "mid = b @ ''['' @ cpt @ '']''"
  define r where "r = create_rxn (''EX_'' @ mid) (mid @ '' '' @ label @ '' exchange'') '' '' bounds"
  define M2 where "M2 = add_metabolite \<lparr>met_id = mid, compartment = cpt\<rparr> (add_reaction r M)"
  have rid: "rxn_id r = ''EX_'' @ mid" by (simp add: r_def create_rxn_def)
  have "''EX_'' @ mid \<in> set (rxn_ids (reactions M2))"
    using add_reaction_has [of r M] by (simp add: M2_def add_metabolite_reactions rid)
  moreover have "fst ` set [(mid, - 1 :: real)] \<subseteq> set (met_ids M2)"
    by (simp add: M2_def add_metabolite_ids)
  ultimately obtain M' where "reaction_add_metabolites (''EX_'' @ mid) [(mid, - 1)] M2 = Inr M'"
    using reaction_add_metabolites_result by blast
  moreover from False have "mid \<notin> set EM" by (simp add: mid_def)
  ultimately show ?thesis
    using add_exchange_reaction_unfold [OF mid_def _ r_def M2_def] by simp
qed

lemma add_exchange_reaction_get_other:
  assumes "add_exchange_reaction b EM M bounds cpt label = Inr M'"
    and "t \<noteq> ''EX_'' @ b @ ''['' @ cpt @ '']'' \<or> b @ ''['' @ cpt @ '']'' \<in> set EM"
  shows "get_by_id (reactions M') t = get_by_id (reactions M) t"
proof (cases "b @ ''['' @ cpt @ '']'' \<in> set EM")
  case True
  with assms(1) show ?thesis by (simp add: add_exchange_reaction_def)
next
  case False
  define mid where "mid = b @ ''['' @ cpt @ '']''"
  define r where "r = create_rxn (''EX_'' @ mid) (mid @ '' '' @ label @ '' exchange'') '' '' bounds"
  define M2 where "M2 = add_metabolite \<lparr>met_id = mid, compartment = cpt\<rparr> (add_reaction r M)"
  have rid: "rxn_id r = ''EX_'' @ mid" by (simp add: r_def create_rxn_def)
  from assms(2) False have ne: "t \<noteq> ''EX_'' @ mid" by (simp add: mid_def)
  from False have "mid \<notin> set EM" by (simp add: mid_def)
  from add_exchange_reaction_unfold [OF mid_def this r_def M2_def] assms(1)
  have "reaction_add_metabolites (''EX_'' @ mid) [(mid, - 1)] M2 = Inr M'" by simp
  from reaction_add_metabolites_get_other [OF this ne]
  have "get_by_id (reactions M') t = get_by_id (reactions M2) t" .
  also have "\<dots> = get_by_id (reactions M) t"
    using ne by (simp add: M2_def add_metabolite_reactions add_reaction_get_other rid)
  finally show ?thesis .
qed

text \<open>
  When the metabolite is not in the snapshot, the coefficient - 1 goes to the reaction
  that \<open>get_by_id\<close> finds under the exchange id: the new one, or the one the model had.
\<close>

lemma add_exchange_reaction_get_target:
  assumes "add_exchange_reaction b EM M bounds cpt label = Inr M'"
    and "b @ ''['' @ cpt @ '']'' \<notin> set EM"
  shows "get_by_id (reactions M') (''EX_'' @ b @ ''['' @ cpt @ '']'') =
           Some (rxn_add_metabolites [(b @ ''['' @ cpt @ '']'', - 1)]
                  (case get_by_id (reactions M) (''EX_'' @ b @ ''['' @ cpt @ '']'') of
                     None \<Rightarrow> create_rxn (''EX_'' @ b @ ''['' @ cpt @ '']'')
                               (b @ ''['' @ cpt @ '']'' @ '' '' @ label @ '' exchange'') '' '' bounds
                   | Some r' \<Rightarrow> r'))"
proof -
  define mid where "mid = b @ ''['' @ cpt @ '']''"
  define r where "r = create_rxn (''EX_'' @ mid) (mid @ '' '' @ label @ '' exchange'') '' '' bounds"
  define M2 where "M2 = add_metabolite \<lparr>met_id = mid, compartment = cpt\<rparr> (add_reaction r M)"
  define r0 where "r0 = (case get_by_id (reactions M) (''EX_'' @ mid) of None \<Rightarrow> r | Some r' \<Rightarrow> r')"
  have rid: "rxn_id r = ''EX_'' @ mid" by (simp add: r_def create_rxn_def)
  from assms(2) have fresh: "mid \<notin> set EM" by (simp add: mid_def)
  have g2: "get_by_id (reactions M2) (''EX_'' @ mid) = Some r0"
  proof (cases "get_by_id (reactions M) (''EX_'' @ mid)")
    case None
    then have "get_by_id (reactions M) (rxn_id r) = None" by (simp add: rid)
    from add_reaction_get_new [OF this] None show ?thesis
      by (simp add: M2_def add_metabolite_reactions rid r0_def)
  next
    case (Some r')
    then have "''EX_'' @ mid \<in> set (rxn_ids (reactions M))"
      by (metis get_by_id_None option.distinct(1))
    then have "add_reaction r M = M" by (simp add: add_reaction_def rid)
    with Some show ?thesis by (simp add: M2_def add_metabolite_reactions r0_def)
  qed
  have in2: "''EX_'' @ mid \<in> set (rxn_ids (reactions M2))"
    using g2 by (metis get_by_id_None option.distinct(1))
  have "fst ` set [(mid, - 1 :: real)] \<subseteq> set (met_ids M2)"
    by (simp add: M2_def add_metabolite_ids)
  from reaction_add_metabolites_result [OF in2 this] g2
  have "reaction_add_metabolites (''EX_'' @ mid) [(mid, - 1)] M2 =
       Inr (M2\<lparr>reactions := put_by_id (''EX_'' @ mid)
                    (rxn_add_metabolites [(mid, - 1)] r0) (reactions M2)\<rparr>)"
    by auto
  moreover from add_exchange_reaction_unfold [OF mid_def fresh r_def M2_def] assms(1)
  have "reaction_add_metabolites (''EX_'' @ mid) [(mid, - 1)] M2 = Inr M'" by simp
  ultimately have "reactions M' = put_by_id (''EX_'' @ mid)
                    (rxn_add_metabolites [(mid, - 1)] r0) (reactions M2)"
    by auto
  moreover have "rxn_id (rxn_add_metabolites [(mid, - 1)] r0) = ''EX_'' @ mid"
    using get_by_id_Some [OF g2] by (simp add: rxn_add_metabolites_id)
  ultimately have "get_by_id (reactions M') (''EX_'' @ mid) = Some (rxn_add_metabolites [(mid, - 1)] r0)"
    using get_by_id_put_same [OF in2] by simp
  then show ?thesis by (auto simp: r0_def r_def mid_def split: option.splits)
qed

lemma add_transport_reaction_returns:
  "rid \<in> set ER \<or> get_by_id (reactions M) rid = None \<Longrightarrow>
     \<exists>M'. add_transport_reaction rid ER M reactant product bounds label = Inr M'"
  by (auto simp: add_transport_reaction_def add_transport_def Let_def get_by_id_None)

lemma add_transport_reaction_get_other:
  "add_transport_reaction rid ER M reactant product bounds label = Inr M' \<Longrightarrow>
   t \<noteq> rid \<or> rid \<in> set ER \<Longrightarrow>
     get_by_id (reactions M') t = get_by_id (reactions M) t"
  by (auto simp: add_transport_reaction_def add_transport_get_other split: if_splits)

lemma add_transport_reaction_get_new:
  "add_transport_reaction rid ER M reactant product bounds label = Inr M' \<Longrightarrow>
   rid \<notin> set ER \<Longrightarrow> reactant \<noteq> product \<Longrightarrow>
     get_by_id (reactions M') rid =
       Some \<lparr>rxn_id = rid, rxn_name = rid @ '' '' @ label @ '' transport'', subsystem = '' '',
             lower_bound = fst bounds, upper_bound = snd bounds,
             stoich = [(reactant, - 1), (product, 1)]\<rparr>"
  by (simp add: add_transport_reaction_def add_transport_get_new)

lemma diet_fecal_ids_differ: "b @ ''[d]'' \<noteq> b' @ ''[fe]''"
proof
  assume "b @ ''[d]'' = b' @ ''[fe]''"
  then have "rev (b @ ''[d]'') = rev (b' @ ''[fe]'')" by simp
  then show False by simp
qed

lemma lumen_step_cases:
  assumes "lumen_step EM ER v M = Inr M'"
  obtains M1 M2 M3 where
    "add_exchange_reaction (split_base v) EM M EXCHANGE_BOUNDS ''d'' ''diet'' = Inr M1"
    "add_transport_reaction (''DUt_'' @ split_base v) ER M1 (split_base v @ ''[d]'') v
       TRANSPORT_BOUNDS ''diet to lumen'' = Inr M2"
    "add_exchange_reaction (split_base v) EM M2 EXCHANGE_BOUNDS ''fe'' ''fecal'' = Inr M3"
    "add_transport_reaction (''UFEt_'' @ split_base v) ER M3 v (split_base v @ ''[fe]'')
       TRANSPORT_BOUNDS ''lumen to fecal'' = Inr M'"
  using assms by (auto simp: lumen_step_def Let_def split: sum.splits)

text \<open>
  One pass of the loop body returns when each of its two transports is in the snapshot
  of reaction ids or is new to the network.
\<close>

lemma lumen_step_returns:
  assumes "''DUt_'' @ split_base v \<in> set ER
             \<or> get_by_id (reactions M) (''DUt_'' @ split_base v) = None"
    and "''UFEt_'' @ split_base v \<in> set ER
             \<or> get_by_id (reactions M) (''UFEt_'' @ split_base v) = None"
  shows "\<exists>M'. lumen_step EM ER v M = Inr M'"
proof -
  define b where "b = split_base v"
  obtain M1 where 1: "add_exchange_reaction b EM M EXCHANGE_BOUNDS ''d'' ''diet'' = Inr M1"
    using add_exchange_reaction_total by blast
  have "get_by_id (reactions M1) (''DUt_'' @ b) = get_by_id (reactions M) (''DUt_'' @ b)"
    by (rule add_exchange_reaction_get_other [OF 1]) simp
  with assms(1) have "''DUt_'' @ b \<in> set ER \<or> get_by_id (reactions M1) (''DUt_'' @ b) = None"
    by (simp add: b_def)
  from add_transport_reaction_returns [OF this]
  obtain M2 where 2: "add_transport_reaction (''DUt_'' @ b) ER M1 (b @ ''[d]'') v
       TRANSPORT_BOUNDS ''diet to lumen'' = Inr M2"
    by blast
  obtain M3 where 3: "add_exchange_reaction b EM M2 EXCHANGE_BOUNDS ''fe'' ''fecal'' = Inr M3"
    using add_exchange_reaction_total by blast
  have "get_by_id (reactions M3) (''UFEt_'' @ b) = get_by_id (reactions M2) (''UFEt_'' @ b)"
    by (rule add_exchange_reaction_get_other [OF 3]) simp
  also have "\<dots> = get_by_id (reactions M1) (''UFEt_'' @ b)"
    by (rule add_transport_reaction_get_other [OF 2]) simp
  also have "\<dots> = get_by_id (reactions M) (''UFEt_'' @ b)"
    by (rule add_exchange_reaction_get_other [OF 1]) simp
  finally have "''UFEt_'' @ b \<in> set ER \<or> get_by_id (reactions M3) (''UFEt_'' @ b) = None"
    using assms(2) by (simp add: b_def)
  from add_transport_reaction_returns [OF this]
  obtain M4 where "add_transport_reaction (''UFEt_'' @ b) ER M3 v (b @ ''[fe]'')
       TRANSPORT_BOUNDS ''lumen to fecal'' = Inr M4"
    by blast
  with 1 2 3 show ?thesis by (simp add: lumen_step_def Let_def b_def)
qed

lemma lumen_step_frame:
  assumes "lumen_step EM ER v M = Inr M'" and "\<not> touches EM ER v t"
  shows "get_by_id (reactions M') t = get_by_id (reactions M) t"
proof -
  define b where "b = split_base v"
  from assms(1) obtain M1 M2 M3 where
    1: "add_exchange_reaction b EM M EXCHANGE_BOUNDS ''d'' ''diet'' = Inr M1" and
    2: "add_transport_reaction (''DUt_'' @ b) ER M1 (b @ ''[d]'') v
          TRANSPORT_BOUNDS ''diet to lumen'' = Inr M2" and
    3: "add_exchange_reaction b EM M2 EXCHANGE_BOUNDS ''fe'' ''fecal'' = Inr M3" and
    4: "add_transport_reaction (''UFEt_'' @ b) ER M3 v (b @ ''[fe]'')
          TRANSPORT_BOUNDS ''lumen to fecal'' = Inr M'"
    unfolding b_def by (rule lumen_step_cases)
  from assms(2) have
    c1: "t \<noteq> ''EX_'' @ b @ ''['' @ ''d'' @ '']'' \<or> b @ ''['' @ ''d'' @ '']'' \<in> set EM" and
    c2: "t \<noteq> ''DUt_'' @ b \<or> ''DUt_'' @ b \<in> set ER" and
    c3: "t \<noteq> ''EX_'' @ b @ ''['' @ ''fe'' @ '']'' \<or> b @ ''['' @ ''fe'' @ '']'' \<in> set EM" and
    c4: "t \<noteq> ''UFEt_'' @ b \<or> ''UFEt_'' @ b \<in> set ER"
    by (auto simp: touches_def b_def Let_def)
  have "get_by_id (reactions M') t = get_by_id (reactions M3) t"
    by (rule add_transport_reaction_get_other [OF 4 c4])
  also have "\<dots> = get_by_id (reactions M2) t"
    by (rule add_exchange_reaction_get_other [OF 3 c3])
  also have "\<dots> = get_by_id (reactions M1) t"
    by (rule add_transport_reaction_get_other [OF 2 c2])
  also have "\<dots> = get_by_id (reactions M) t"
    by (rule add_exchange_reaction_get_other [OF 1 c1])
  finally show ?thesis .
qed

lemma lumen_loop_frame:
  "lumen_loop EM ER vs M = Inr M' \<Longrightarrow> \<forall>v \<in> set vs. \<not> touches EM ER v t \<Longrightarrow>
     get_by_id (reactions M') t = get_by_id (reactions M) t"
proof (induction vs arbitrary: M)
  case Nil
  then show ?case by simp
next
  case (Cons v vs)
  from Cons.prems(1) obtain M1 where s: "lumen_step EM ER v M = Inr M1"
    and l: "lumen_loop EM ER vs M1 = Inr M'"
    by (auto split: sum.splits)
  from Cons.IH [OF l] Cons.prems(2) lumen_step_frame [OF s, of t] show ?case by simp
qed

lemma lumen_loop_append:
  "lumen_loop EM ER (xs @ ys) M = Inr M' \<Longrightarrow>
     \<exists>M1. lumen_loop EM ER xs M = Inr M1 \<and> lumen_loop EM ER ys M1 = Inr M'"
  by (induction xs arbitrary: M) (auto split: sum.splits)

lemma split_base_lumen: "CHR ''['' \<notin> set b \<Longrightarrow> split_base (b @ CHR ''['' # rest) = b"
  by (induction b) (auto simp: split_base_def)

lemma touches_other_base:
  assumes "split_base v \<noteq> b"
    and "t = ''EX_'' @ b @ ''[d]'' \<or> t = ''DUt_'' @ b \<or> t = ''EX_'' @ b @ ''[fe]'' \<or> t = ''UFEt_'' @ b"
  shows "\<not> touches EM ER v t"
  using assms diet_fecal_ids_differ [of b "split_base v"] diet_fecal_ids_differ [of "split_base v" b]
  by (auto simp: touches_def Let_def)

lemma touches_guarded:
  "b = split_base v \<Longrightarrow> b @ ''[d]'' \<in> set EM \<Longrightarrow> \<not> touches EM ER v (''EX_'' @ b @ ''[d]'')"
  "b = split_base v \<Longrightarrow> ''DUt_'' @ b \<in> set ER \<Longrightarrow> \<not> touches EM ER v (''DUt_'' @ b)"
  "b = split_base v \<Longrightarrow> b @ ''[fe]'' \<in> set EM \<Longrightarrow> \<not> touches EM ER v (''EX_'' @ b @ ''[fe]'')"
  "b = split_base v \<Longrightarrow> ''UFEt_'' @ b \<in> set ER \<Longrightarrow> \<not> touches EM ER v (''UFEt_'' @ b)"
  by (auto simp: touches_def Let_def)

text \<open>
  The loop returns when the metabolites it runs through have pairwise different base
  names and every transport that is not in the snapshot is new to the network: no pass
  then meets a transport that an earlier pass has added.
\<close>

lemma lumen_loop_returns:
  "distinct (map split_base vs) \<Longrightarrow>
   \<forall>v \<in> set vs.
      (''DUt_'' @ split_base v \<in> set ER \<or> get_by_id (reactions M) (''DUt_'' @ split_base v) = None)
    \<and> (''UFEt_'' @ split_base v \<in> set ER \<or> get_by_id (reactions M) (''UFEt_'' @ split_base v) = None)
   \<Longrightarrow> \<exists>M'. lumen_loop EM ER vs M = Inr M'"
proof (induction vs arbitrary: M)
  case Nil
  show ?case by simp
next
  case (Cons v vs)
  from Cons.prems(2) obtain M1 where s: "lumen_step EM ER v M = Inr M1"
    using lumen_step_returns [of v ER M EM] by auto
  have keep: "get_by_id (reactions M1) t = get_by_id (reactions M) t"
    if "w \<in> set vs" "t = ''DUt_'' @ split_base w \<or> t = ''UFEt_'' @ split_base w" for w t
  proof -
    from that(1) Cons.prems(1) have "split_base v \<noteq> split_base w" by auto
    from touches_other_base [OF this, of t EM ER] that(2) have "\<not> touches EM ER v t" by blast
    from lumen_step_frame [OF s this] show ?thesis .
  qed
  have "\<forall>w \<in> set vs.
      (''DUt_'' @ split_base w \<in> set ER \<or> get_by_id (reactions M1) (''DUt_'' @ split_base w) = None)
    \<and> (''UFEt_'' @ split_base w \<in> set ER \<or> get_by_id (reactions M1) (''UFEt_'' @ split_base w) = None)"
    using Cons.prems(2) keep by simp
  moreover from Cons.prems(1) have "distinct (map split_base vs)" by simp
  ultimately obtain M' where "lumen_loop EM ER vs M1 = Inr M'"
    using Cons.IH by blast
  with s show ?case by simp
qed

text \<open>
  General metabolites written \<open>base[u]\<close> with no bracket in the base name have pairwise
  different base names.
\<close>

lemma lumen_ids_distinct_bases:
  assumes "\<forall>v \<in> S. \<exists>b. v = b @ ''[u]'' \<and> CHR ''['' \<notin> set b"
  shows "inj_on split_base S"
proof (rule inj_onI)
  fix v w
  assume "v \<in> S" "w \<in> S" and eq: "split_base v = split_base w"
  with assms obtain b c where v: "v = b @ ''[u]''" "CHR ''['' \<notin> set b"
    and w: "w = c @ ''[u]''" "CHR ''['' \<notin> set c"
    by blast
  from split_base_lumen [OF v(2), of "''u]''"] split_base_lumen [OF w(2), of "''u]''"] eq
  have "b = c" by (simp add: v(1) w(1))
  then show "v = w" by (simp add: v(1) w(1))
qed

text \<open>What one pass of the loop body leaves under each of the four reaction ids.\<close>

lemma lumen_step_diet_exchange:
  assumes "lumen_step EM ER v M = Inr M'" and "b = split_base v"
    and "b @ ''[d]'' \<notin> set EM"
  shows "get_by_id (reactions M') (''EX_'' @ b @ ''[d]'') =
           Some (rxn_add_metabolites [(b @ ''[d]'', - 1)]
                  (case get_by_id (reactions M) (''EX_'' @ b @ ''[d]'') of
                     None \<Rightarrow> create_rxn (''EX_'' @ b @ ''[d]'') (b @ ''[d] diet exchange'') '' ''
                               EXCHANGE_BOUNDS
                   | Some r' \<Rightarrow> r'))"
proof -
  from assms(1) obtain M1 M2 M3 where
    1: "add_exchange_reaction b EM M EXCHANGE_BOUNDS ''d'' ''diet'' = Inr M1" and
    2: "add_transport_reaction (''DUt_'' @ b) ER M1 (b @ ''[d]'') v
          TRANSPORT_BOUNDS ''diet to lumen'' = Inr M2" and
    3: "add_exchange_reaction b EM M2 EXCHANGE_BOUNDS ''fe'' ''fecal'' = Inr M3" and
    4: "add_transport_reaction (''UFEt_'' @ b) ER M3 v (b @ ''[fe]'')
          TRANSPORT_BOUNDS ''lumen to fecal'' = Inr M'"
    unfolding assms(2) by (rule lumen_step_cases)
  let ?t = "''EX_'' @ b @ ''[d]''"
  have "get_by_id (reactions M') ?t = get_by_id (reactions M3) ?t"
    by (rule add_transport_reaction_get_other [OF 4]) simp
  also have "\<dots> = get_by_id (reactions M2) ?t"
    by (rule add_exchange_reaction_get_other [OF 3]) simp
  also have "\<dots> = get_by_id (reactions M1) ?t"
    by (rule add_transport_reaction_get_other [OF 2]) simp
  finally show ?thesis
    using add_exchange_reaction_get_target [OF 1] assms(3) by (auto split: option.splits)
qed

lemma lumen_step_fecal_exchange:
  assumes "lumen_step EM ER v M = Inr M'" and "b = split_base v"
    and "b @ ''[fe]'' \<notin> set EM"
  shows "get_by_id (reactions M') (''EX_'' @ b @ ''[fe]'') =
           Some (rxn_add_metabolites [(b @ ''[fe]'', - 1)]
                  (case get_by_id (reactions M) (''EX_'' @ b @ ''[fe]'') of
                     None \<Rightarrow> create_rxn (''EX_'' @ b @ ''[fe]'') (b @ ''[fe] fecal exchange'') '' ''
                               EXCHANGE_BOUNDS
                   | Some r' \<Rightarrow> r'))"
proof -
  from assms(1) obtain M1 M2 M3 where
    1: "add_exchange_reaction b EM M EXCHANGE_BOUNDS ''d'' ''diet'' = Inr M1" and
    2: "add_transport_reaction (''DUt_'' @ b) ER M1 (b @ ''[d]'') v
          TRANSPORT_BOUNDS ''diet to lumen'' = Inr M2" and
    3: "add_exchange_reaction b EM M2 EXCHANGE_BOUNDS ''fe'' ''fecal'' = Inr M3" and
    4: "add_transport_reaction (''UFEt_'' @ b) ER M3 v (b @ ''[fe]'')
          TRANSPORT_BOUNDS ''lumen to fecal'' = Inr M'"
    unfolding assms(2) by (rule lumen_step_cases)
  let ?t = "''EX_'' @ b @ ''[fe]''"
  have "get_by_id (reactions M2) ?t = get_by_id (reactions M1) ?t"
    by (rule add_transport_reaction_get_other [OF 2]) simp
  also have "\<dots> = get_by_id (reactions M) ?t"
    by (rule add_exchange_reaction_get_other [OF 1]) simp
  finally have before: "get_by_id (reactions M2) ?t = get_by_id (reactions M) ?t" .
  have "get_by_id (reactions M') ?t = get_by_id (reactions M3) ?t"
    by (rule add_transport_reaction_get_other [OF 4]) simp
  then show ?thesis
    using add_exchange_reaction_get_target [OF 3] assms(3) before by (auto split: option.splits)
qed

lemma lumen_step_new_diet_transport:
  assumes "lumen_step EM ER v M = Inr M'" and "b = split_base v"
    and "''DUt_'' @ b \<notin> set ER" and "b @ ''[d]'' \<noteq> v"
  shows "get_by_id (reactions M') (''DUt_'' @ b) =
           Some \<lparr>rxn_id = ''DUt_'' @ b, rxn_name = ''DUt_'' @ b @ '' diet to lumen transport'',
                 subsystem = '' '', lower_bound = 0, upper_bound = 10000,
                 stoich = [(b @ ''[d]'', - 1), (v, 1)]\<rparr>"
proof -
  from assms(1) obtain M1 M2 M3 where
    1: "add_exchange_reaction b EM M EXCHANGE_BOUNDS ''d'' ''diet'' = Inr M1" and
    2: "add_transport_reaction (''DUt_'' @ b) ER M1 (b @ ''[d]'') v
          TRANSPORT_BOUNDS ''diet to lumen'' = Inr M2" and
    3: "add_exchange_reaction b EM M2 EXCHANGE_BOUNDS ''fe'' ''fecal'' = Inr M3" and
    4: "add_transport_reaction (''UFEt_'' @ b) ER M3 v (b @ ''[fe]'')
          TRANSPORT_BOUNDS ''lumen to fecal'' = Inr M'"
    unfolding assms(2) by (rule lumen_step_cases)
  let ?t = "''DUt_'' @ b"
  have "get_by_id (reactions M') ?t = get_by_id (reactions M3) ?t"
    by (rule add_transport_reaction_get_other [OF 4]) simp
  also have "\<dots> = get_by_id (reactions M2) ?t"
    by (rule add_exchange_reaction_get_other [OF 3]) simp
  finally show ?thesis
    using add_transport_reaction_get_new [OF 2 assms(3,4)]
    by (simp add: TRANSPORT_BOUNDS_def)
qed

lemma lumen_step_new_fecal_transport:
  assumes "lumen_step EM ER v M = Inr M'" and "b = split_base v"
    and "''UFEt_'' @ b \<notin> set ER" and "v \<noteq> b @ ''[fe]''"
  shows "get_by_id (reactions M') (''UFEt_'' @ b) =
           Some \<lparr>rxn_id = ''UFEt_'' @ b, rxn_name = ''UFEt_'' @ b @ '' lumen to fecal transport'',
                 subsystem = '' '', lower_bound = 0, upper_bound = 10000,
                 stoich = [(v, - 1), (b @ ''[fe]'', 1)]\<rparr>"
proof -
  from assms(1) obtain M1 M2 M3 where
    1: "add_exchange_reaction b EM M EXCHANGE_BOUNDS ''d'' ''diet'' = Inr M1" and
    2: "add_transport_reaction (''DUt_'' @ b) ER M1 (b @ ''[d]'') v
          TRANSPORT_BOUNDS ''diet to lumen'' = Inr M2" and
    3: "add_exchange_reaction b EM M2 EXCHANGE_BOUNDS ''fe'' ''fecal'' = Inr M3" and
    4: "add_transport_reaction (''UFEt_'' @ b) ER M3 v (b @ ''[fe]'')
          TRANSPORT_BOUNDS ''lumen to fecal'' = Inr M'"
    unfolding assms(2) by (rule lumen_step_cases)
  show ?thesis
    using add_transport_reaction_get_new [OF 4 assms(3,4)]
    by (simp add: TRANSPORT_BOUNDS_def)
qed

text \<open>
  C8, as the code has it. Let the general metabolites (the \<open>[u]\<close> reactants of the
  inter-exchange reactions) have plain ids and pairwise different base names, and let
  \<open>base[u]\<close>, with no bracket in \<open>base\<close>, be one of them. Then
  \<open>add_diet_fecal_compartments\<close> returns, in any order in which the set of general
  metabolites is run through, and in its result:
  \<^item> a transport (\<open>DUt_base\<close> from \<open>base[d]\<close> to \<open>base[u]\<close>, \<open>UFEt_base\<close> from \<open>base[u]\<close>
    to \<open>base[fe]\<close>) is there with bounds 0 and 10000 if no reaction of that id existed,
    and is the reaction that existed otherwise;
  \<^item> an exchange (\<open>EX_base[d]\<close>, \<open>EX_base[fe]\<close>) is skipped on the metabolite, not on the
    reaction. If the metabolite \<open>base[d]\<close> existed, what the network had under
    \<open>EX_base[d]\<close>, a reaction or none, is left as it was. If neither the metabolite nor
    a reaction \<open>EX_base[d]\<close> existed, the exchange is there with bounds -1000 and 10000
    and coefficient -1 on \<open>base[d]\<close>. If the metabolite did not exist and a reaction
    \<open>EX_base[d]\<close> did, that reaction keeps its name and bounds and gets the coefficient
    -1 on \<open>base[d]\<close> added to its stoichiometry. The same holds for \<open>[fe]\<close>.
\<close>

theorem diet_fecal_chain:
  assumes "distinct (set_order (general_mets (remove_exchange_artifacts model)))"
    and "set (set_order (general_mets (remove_exchange_artifacts model)))
           = set (general_mets (remove_exchange_artifacts model))"
    and "model0 = remove_exchange_artifacts model"
    and "\<forall>v \<in> set (general_mets model0). plain_id v"
    and "inj_on split_base (set (general_mets model0))"
    and "lumen = base @ ''[u]''" and "CHR ''['' \<notin> set base"
    and "lumen \<in> set (general_mets model0)"
  shows "\<exists>model'. add_diet_fecal_compartments set_order model = Inr model'
    \<and> (base @ ''[d]'' \<notin> set (met_ids model0) \<and> ''EX_'' @ base @ ''[d]'' \<notin> set (rxn_ids (reactions model0))
        \<longrightarrow> get_by_id (reactions model') (''EX_'' @ base @ ''[d]'') =
              Some \<lparr>rxn_id = ''EX_'' @ base @ ''[d]'', rxn_name = base @ ''[d] diet exchange'',
                    subsystem = '' '', lower_bound = - 1000, upper_bound = 10000,
                    stoich = [(base @ ''[d]'', - 1)]\<rparr>)
    \<and> (\<forall>r. base @ ''[d]'' \<notin> set (met_ids model0)
            \<and> get_by_id (reactions model0) (''EX_'' @ base @ ''[d]'') = Some r
        \<longrightarrow> get_by_id (reactions model') (''EX_'' @ base @ ''[d]'') =
              Some (rxn_add_metabolites [(base @ ''[d]'', - 1)] r))
    \<and> (base @ ''[d]'' \<in> set (met_ids model0)
        \<longrightarrow> get_by_id (reactions model') (''EX_'' @ base @ ''[d]'')
              = get_by_id (reactions model0) (''EX_'' @ base @ ''[d]''))
    \<and> (''DUt_'' @ base \<notin> set (rxn_ids (reactions model0))
        \<longrightarrow> get_by_id (reactions model') (''DUt_'' @ base) =
              Some \<lparr>rxn_id = ''DUt_'' @ base,
                    rxn_name = ''DUt_'' @ base @ '' diet to lumen transport'',
                    subsystem = '' '', lower_bound = 0, upper_bound = 10000,
                    stoich = [(base @ ''[d]'', - 1), (base @ ''[u]'', 1)]\<rparr>)
    \<and> (''DUt_'' @ base \<in> set (rxn_ids (reactions model0))
        \<longrightarrow> get_by_id (reactions model') (''DUt_'' @ base)
              = get_by_id (reactions model0) (''DUt_'' @ base))
    \<and> (''UFEt_'' @ base \<notin> set (rxn_ids (reactions model0))
        \<longrightarrow> get_by_id (reactions model') (''UFEt_'' @ base) =
              Some \<lparr>rxn_id = ''UFEt_'' @ base,
                    rxn_name = ''UFEt_'' @ base @ '' lumen to fecal transport'',
                    subsystem = '' '', lower_bound = 0, upper_bound = 10000,
                    stoich = [(base @ ''[u]'', - 1), (base @ ''[fe]'', 1)]\<rparr>)
    \<and> (''UFEt_'' @ base \<in> set (rxn_ids (reactions model0))
        \<longrightarrow> get_by_id (reactions model') (''UFEt_'' @ base)
              = get_by_id (reactions model0) (''UFEt_'' @ base))
    \<and> (base @ ''[fe]'' \<notin> set (met_ids model0) \<and> ''EX_'' @ base @ ''[fe]'' \<notin> set (rxn_ids (reactions model0))
        \<longrightarrow> get_by_id (reactions model') (''EX_'' @ base @ ''[fe]'') =
              Some \<lparr>rxn_id = ''EX_'' @ base @ ''[fe]'', rxn_name = base @ ''[fe] fecal exchange'',
                    subsystem = '' '', lower_bound = - 1000, upper_bound = 10000,
                    stoich = [(base @ ''[fe]'', - 1)]\<rparr>)
    \<and> (\<forall>r. base @ ''[fe]'' \<notin> set (met_ids model0)
            \<and> get_by_id (reactions model0) (''EX_'' @ base @ ''[fe]'') = Some r
        \<longrightarrow> get_by_id (reactions model') (''EX_'' @ base @ ''[fe]'') =
              Some (rxn_add_metabolites [(base @ ''[fe]'', - 1)] r))
    \<and> (base @ ''[fe]'' \<in> set (met_ids model0)
        \<longrightarrow> get_by_id (reactions model') (''EX_'' @ base @ ''[fe]'')
              = get_by_id (reactions model0) (''EX_'' @ base @ ''[fe]''))"
proof -
  define EM where "EM = met_ids model0"
  define ER where "ER = rxn_ids (reactions model0)"
  define order where "order = set_order (general_mets model0)"
  have d: "distinct order" and so: "set order = set (general_mets model0)"
    using assms(1,2) by (simp_all add: order_def assms(3))
  have bases: "distinct (map split_base order)"
    using d assms(5) by (simp add: distinct_map so)
  have "\<forall>v \<in> set order.
      (''DUt_'' @ split_base v \<in> set ER
         \<or> get_by_id (reactions model0) (''DUt_'' @ split_base v) = None)
    \<and> (''UFEt_'' @ split_base v \<in> set ER
         \<or> get_by_id (reactions model0) (''UFEt_'' @ split_base v) = None)"
    by (simp add: ER_def get_by_id_None)
  from lumen_loop_returns [OF bases this]
  obtain model' where run: "lumen_loop EM ER order model0 = Inr model'"
    by blast
  have res: "add_diet_fecal_compartments set_order model = Inr model'"
    using run by (simp add: add_diet_fecal_compartments_def Let_def EM_def ER_def order_def assms(3))
  have sb: "split_base lumen = base"
    using split_base_lumen [OF assms(7), of "''u]''"] by (simp add: assms(6))
  from assms(8) so have "lumen \<in> set order" by simp
  then obtain xs ys where split: "order = xs @ lumen # ys" by (auto dest: split_list)
  with d have notin: "lumen \<notin> set xs" "lumen \<notin> set ys" by auto
  from run split obtain M1 where l1: "lumen_loop EM ER xs model0 = Inr M1"
    and r1: "lumen_loop EM ER (lumen # ys) M1 = Inr model'"
    using lumen_loop_append by blast
  from r1 obtain M2 where st: "lumen_step EM ER lumen M1 = Inr M2"
    and l2: "lumen_loop EM ER ys M2 = Inr model'"
    by (auto split: sum.splits)
  have others: "split_base v \<noteq> base" if "v \<in> set xs \<union> set ys" for v
  proof
    assume "split_base v = base"
    with sb have "split_base v = split_base lumen" by simp
    moreover from that split so have "v \<in> set (general_mets model0)" by auto
    ultimately have "v = lumen" using assms(5,8) by (auto dest: inj_onD)
    with that notin show False by auto
  qed
  have target: "t = ''EX_'' @ base @ ''[d]'' \<or> t = ''DUt_'' @ base
                \<or> t = ''EX_'' @ base @ ''[fe]'' \<or> t = ''UFEt_'' @ base \<Longrightarrow>
        get_by_id (reactions M1) t = get_by_id (reactions model0) t
      \<and> get_by_id (reactions model') t = get_by_id (reactions M2) t" for t
    using lumen_loop_frame [OF l1, of t] lumen_loop_frame [OF l2, of t]
      touches_other_base [OF others, of _ t EM ER]
    by blast
  have skip: "get_by_id (reactions model') t = get_by_id (reactions model0) t"
    if "\<not> touches EM ER lumen t"
      "t = ''EX_'' @ base @ ''[d]'' \<or> t = ''DUt_'' @ base
                \<or> t = ''EX_'' @ base @ ''[fe]'' \<or> t = ''UFEt_'' @ base" for t
    using target [OF that(2)] lumen_step_frame [OF st that(1)] by simp
  have ex_d: "get_by_id (reactions model') (''EX_'' @ base @ ''[d]'') =
           Some (rxn_add_metabolites [(base @ ''[d]'', - 1)]
                  (case get_by_id (reactions model0) (''EX_'' @ base @ ''[d]'') of
                     None \<Rightarrow> create_rxn (''EX_'' @ base @ ''[d]'') (base @ ''[d] diet exchange'') '' ''
                               EXCHANGE_BOUNDS
                   | Some r' \<Rightarrow> r'))"
    if "base @ ''[d]'' \<notin> set (met_ids model0)"
    using lumen_step_diet_exchange [OF st sb [symmetric], unfolded EM_def, OF that]
      target [of "''EX_'' @ base @ ''[d]''"] by simp
  have ex_fe: "get_by_id (reactions model') (''EX_'' @ base @ ''[fe]'') =
           Some (rxn_add_metabolites [(base @ ''[fe]'', - 1)]
                  (case get_by_id (reactions model0) (''EX_'' @ base @ ''[fe]'') of
                     None \<Rightarrow> create_rxn (''EX_'' @ base @ ''[fe]'') (base @ ''[fe] fecal exchange'') '' ''
                               EXCHANGE_BOUNDS
                   | Some r' \<Rightarrow> r'))"
    if "base @ ''[fe]'' \<notin> set (met_ids model0)"
    using lumen_step_fecal_exchange [OF st sb [symmetric], unfolded EM_def, OF that]
      target [of "''EX_'' @ base @ ''[fe]''"] by simp
  have c1: "get_by_id (reactions model') (''EX_'' @ base @ ''[d]'') =
              Some \<lparr>rxn_id = ''EX_'' @ base @ ''[d]'', rxn_name = base @ ''[d] diet exchange'',
                    subsystem = '' '', lower_bound = - 1000, upper_bound = 10000,
                    stoich = [(base @ ''[d]'', - 1)]\<rparr>"
    if "base @ ''[d]'' \<notin> set (met_ids model0)" "''EX_'' @ base @ ''[d]'' \<notin> set (rxn_ids (reactions model0))"
    using ex_d [OF that(1)] that(2) [folded get_by_id_None]
    by (simp add: rxn_add_metabolites_def create_rxn_def EXCHANGE_BOUNDS_def)
  have c2: "get_by_id (reactions model') (''EX_'' @ base @ ''[d]'') =
              Some (rxn_add_metabolites [(base @ ''[d]'', - 1)] r)"
    if "base @ ''[d]'' \<notin> set (met_ids model0)"
      "get_by_id (reactions model0) (''EX_'' @ base @ ''[d]'') = Some r" for r
    using ex_d [OF that(1)] that(2) by simp
  have c3: "get_by_id (reactions model') (''DUt_'' @ base) =
              Some \<lparr>rxn_id = ''DUt_'' @ base,
                    rxn_name = ''DUt_'' @ base @ '' diet to lumen transport'',
                    subsystem = '' '', lower_bound = 0, upper_bound = 10000,
                    stoich = [(base @ ''[d]'', - 1), (base @ ''[u]'', 1)]\<rparr>"
    if "''DUt_'' @ base \<notin> set (rxn_ids (reactions model0))"
    using lumen_step_new_diet_transport [OF st sb [symmetric], unfolded ER_def, OF that]
      target [of "''DUt_'' @ base"] by (simp add: assms(6))
  have c4: "get_by_id (reactions model') (''UFEt_'' @ base) =
              Some \<lparr>rxn_id = ''UFEt_'' @ base,
                    rxn_name = ''UFEt_'' @ base @ '' lumen to fecal transport'',
                    subsystem = '' '', lower_bound = 0, upper_bound = 10000,
                    stoich = [(base @ ''[u]'', - 1), (base @ ''[fe]'', 1)]\<rparr>"
    if "''UFEt_'' @ base \<notin> set (rxn_ids (reactions model0))"
    using lumen_step_new_fecal_transport [OF st sb [symmetric], unfolded ER_def, OF that]
      target [of "''UFEt_'' @ base"] by (simp add: assms(6))
  have c5: "get_by_id (reactions model') (''EX_'' @ base @ ''[fe]'') =
              Some \<lparr>rxn_id = ''EX_'' @ base @ ''[fe]'', rxn_name = base @ ''[fe] fecal exchange'',
                    subsystem = '' '', lower_bound = - 1000, upper_bound = 10000,
                    stoich = [(base @ ''[fe]'', - 1)]\<rparr>"
    if "base @ ''[fe]'' \<notin> set (met_ids model0)" "''EX_'' @ base @ ''[fe]'' \<notin> set (rxn_ids (reactions model0))"
    using ex_fe [OF that(1)] that(2) [folded get_by_id_None]
    by (simp add: rxn_add_metabolites_def create_rxn_def EXCHANGE_BOUNDS_def)
  have c6: "get_by_id (reactions model') (''EX_'' @ base @ ''[fe]'') =
              Some (rxn_add_metabolites [(base @ ''[fe]'', - 1)] r)"
    if "base @ ''[fe]'' \<notin> set (met_ids model0)"
      "get_by_id (reactions model0) (''EX_'' @ base @ ''[fe]'') = Some r" for r
    using ex_fe [OF that(1)] that(2) by simp
  note g = touches_guarded [OF sb [symmetric], where EM = EM and ER = ER, unfolded EM_def ER_def]
  have s1: "get_by_id (reactions model') (''EX_'' @ base @ ''[d]'')
              = get_by_id (reactions model0) (''EX_'' @ base @ ''[d]'')"
    if "base @ ''[d]'' \<in> set (met_ids model0)"
    using skip [unfolded EM_def ER_def, OF g(1) [OF that]] by simp
  have s2: "get_by_id (reactions model') (''DUt_'' @ base)
              = get_by_id (reactions model0) (''DUt_'' @ base)"
    if "''DUt_'' @ base \<in> set (rxn_ids (reactions model0))"
    using skip [unfolded EM_def ER_def, OF g(2) [OF that]] by simp
  have s3: "get_by_id (reactions model') (''UFEt_'' @ base)
              = get_by_id (reactions model0) (''UFEt_'' @ base)"
    if "''UFEt_'' @ base \<in> set (rxn_ids (reactions model0))"
    using skip [unfolded EM_def ER_def, OF g(4) [OF that]] by simp
  have s4: "get_by_id (reactions model') (''EX_'' @ base @ ''[fe]'')
              = get_by_id (reactions model0) (''EX_'' @ base @ ''[fe]'')"
    if "base @ ''[fe]'' \<in> set (met_ids model0)"
    using skip [unfolded EM_def ER_def, OF g(3) [OF that]] by simp
  show ?thesis
    apply (rule exI [of _ model'])
    using res c1 c2 c3 c4 c5 c6 s1 s2 s3 s4 by blast
qed

lemma lumen_example_general:
  "general_mets (remove_exchange_artifacts lumen_example) = [''glc[u]'', ''ac[u]'']"
  by (simp add: lumen_example_def remove_exchange_artifacts_def remove_reactions_def
        general_mets_def)

theorem diet_fecal_chain_witness:
  "''ac[u]'' \<in> set (general_mets (remove_exchange_artifacts lumen_example))
   \<and> (\<exists>model'. add_diet_fecal_compartments remdups lumen_example = Inr model'
        \<and> get_by_id (reactions model') ''EX_ac[d]'' =
            Some \<lparr>rxn_id = ''EX_ac[d]'', rxn_name = ''ac[d] diet exchange'', subsystem = '' '',
                  lower_bound = - 1000, upper_bound = 10000, stoich = [(''ac[d]'', - 1)]\<rparr>
        \<and> get_by_id (reactions model') ''DUt_ac'' =
            Some \<lparr>rxn_id = ''DUt_ac'', rxn_name = ''DUt_ac diet to lumen transport'',
                  subsystem = '' '', lower_bound = 0, upper_bound = 10000,
                  stoich = [(''ac[d]'', - 1), (''ac[u]'', 1)]\<rparr>
        \<and> get_by_id (reactions model') ''UFEt_ac'' =
            Some \<lparr>rxn_id = ''UFEt_ac'', rxn_name = ''UFEt_ac lumen to fecal transport'',
                  subsystem = '' '', lower_bound = 0, upper_bound = 10000,
                  stoich = [(''ac[u]'', - 1), (''ac[fe]'', 1)]\<rparr>
        \<and> get_by_id (reactions model') ''EX_ac[fe]'' =
            Some \<lparr>rxn_id = ''EX_ac[fe]'', rxn_name = ''ac[fe] fecal exchange'', subsystem = '' '',
                  lower_bound = - 1000, upper_bound = 10000, stoich = [(''ac[fe]'', - 1)]\<rparr>)"
proof -
  let ?g = "general_mets (remove_exchange_artifacts lumen_example)"
  have m0: "met_ids (remove_exchange_artifacts lumen_example)
              = [''glc[u]'', ''A_glc[u]'', ''ac[u]'', ''A_ac[u]'', ''glc[d]'']"
    and r0: "rxn_ids (reactions (remove_exchange_artifacts lumen_example))
              = [''A_IEX_glc[u]tr'', ''A_IEX_ac[u]tr'']"
    by (simp_all add: lumen_example_def remove_exchange_artifacts_def remove_reactions_def
          met_ids_def rxn_ids_def)
  have h1: "distinct (remdups ?g)" by simp
  have h2: "set (remdups ?g) = set ?g" by simp
  have h3: "\<forall>v \<in> set ?g. plain_id v"
    by (simp add: lumen_example_general plain_id_def)
  have h4: "inj_on split_base (set ?g)"
    by (simp add: lumen_example_general split_base_def)
  have h5: "''ac[u]'' = ''ac'' @ ''[u]''" by simp
  have h6: "CHR ''['' \<notin> set ''ac''" by simp
  have h7: "''ac[u]'' \<in> set ?g" by (simp add: lumen_example_general)
  from diet_fecal_chain [where set_order = remdups and model = lumen_example,
         OF h1 h2 refl h3 h4 h5 h6 h7] h7
  show ?thesis
    unfolding m0 r0 by simp blast
qed

text \<open>
  Where two general metabolites, plain as they may be, share a base name, the second
  pass for that name finds the transport of the first in the network: \<open>add_reactions\<close>
  ignores the new reaction, and writing its equation raises.
\<close>

lemma shared_base_raises:
  "general_mets (remove_exchange_artifacts shared_base_example) = [''glc[u]'', ''glc[x][u]'']
   \<and> add_diet_fecal_compartments remdups shared_base_example = Inl AttributeError
   \<and> add_diet_fecal_compartments (\<lambda>xs. rev (remdups xs)) shared_base_example = Inl AttributeError"
  by code_simp

text \<open>
  Where a reaction \<open>EX_ac[d]\<close> exists and the metabolite \<open>ac[d]\<close> does not, the pass
  is not skipped: the new reaction is ignored and the coefficient goes to the one that was
  there, which keeps its name and bounds.
\<close>

lemma exchange_present_altered:
  "(case add_diet_fecal_compartments remdups exchange_present_example of
      Inl e \<Rightarrow> False
    | Inr model' \<Rightarrow>
        get_by_id (reactions model') ''EX_ac[d]'' =
          Some \<lparr>rxn_id = ''EX_ac[d]'', rxn_name = ''acetate sink'', subsystem = '' '',
                lower_bound = - 5, upper_bound = 7,
                stoich = [(''ac[u]'', - 1), (''ac[d]'', - 1)]\<rparr>)"
  by code_simp

lemma lumen_example_no_diet_exchange:
  assumes "distinct (set_order [''glc[u]'', ''ac[u]''])"
    and "set (set_order [''glc[u]'', ''ac[u]'']) = {''glc[u]'', ''ac[u]''}"
  shows "\<exists>model'. add_diet_fecal_compartments set_order lumen_example = Inr model'
           \<and> ''EX_glc[d]'' \<notin> set (rxn_ids (reactions model'))"
proof -
  let ?m0 = "remove_exchange_artifacts lumen_example"
  let ?order = "set_order [''glc[u]'', ''ac[u]'']"
  have m0: "met_ids ?m0 = [''glc[u]'', ''A_glc[u]'', ''ac[u]'', ''A_ac[u]'', ''glc[d]'']"
    and r0: "rxn_ids (reactions ?m0) = [''A_IEX_glc[u]tr'', ''A_IEX_ac[u]tr'']"
    by (simp_all add: lumen_example_def remove_exchange_artifacts_def remove_reactions_def
          met_ids_def rxn_ids_def)
  have "inj_on split_base (set ?order)"
    unfolding assms(2) by (simp add: split_base_def)
  with assms(1) have bases: "distinct (map split_base ?order)"
    by (simp add: distinct_map)
  have "\<forall>v \<in> set ?order.
      (''DUt_'' @ split_base v \<in> set (rxn_ids (reactions ?m0))
         \<or> get_by_id (reactions ?m0) (''DUt_'' @ split_base v) = None)
    \<and> (''UFEt_'' @ split_base v \<in> set (rxn_ids (reactions ?m0))
         \<or> get_by_id (reactions ?m0) (''UFEt_'' @ split_base v) = None)"
    by (simp add: get_by_id_None)
  from lumen_loop_returns [OF bases this]
  obtain model' where run:
    "lumen_loop (met_ids ?m0) (rxn_ids (reactions ?m0)) ?order ?m0 = Inr model'"
    by blast
  have "\<forall>v \<in> set ?order. \<not> touches (met_ids ?m0) (rxn_ids (reactions ?m0)) v ''EX_glc[d]''"
    unfolding assms(2) m0 r0 by (simp add: touches_def split_base_def)
  from lumen_loop_frame [OF run this]
  have "get_by_id (reactions model') ''EX_glc[d]'' = None"
    by (simp add: get_by_id_None r0)
  then have "''EX_glc[d]'' \<notin> set (rxn_ids (reactions model'))"
    by (simp add: get_by_id_None)
  moreover have "add_diet_fecal_compartments set_order lumen_example = Inr model'"
    using run by (simp add: add_diet_fecal_compartments_def Let_def lumen_example_general)
  ultimately show ?thesis by blast
qed

text \<open>
  The claim as stated fails where the metabolite \<open>glc[d]\<close> exists and the reaction
  \<open>EX_glc[d]\<close> does not: no exchange is added, in either order of the two general
  metabolites.
\<close>

theorem diet_fecal_chain_counterexample:
  "''glc[u]'' \<in> set (general_mets (remove_exchange_artifacts lumen_example))
   \<and> ''EX_glc[d]'' \<notin> set (rxn_ids (reactions lumen_example))
   \<and> (\<exists>model'. add_diet_fecal_compartments remdups lumen_example = Inr model'
         \<and> ''EX_glc[d]'' \<notin> set (rxn_ids (reactions model')))
   \<and> (\<exists>model'. add_diet_fecal_compartments (\<lambda>xs. rev (remdups xs)) lumen_example = Inr model'
         \<and> ''EX_glc[d]'' \<notin> set (rxn_ids (reactions model')))"
proof -
  have "''glc[u]'' \<in> set (general_mets (remove_exchange_artifacts lumen_example))"
    by (simp add: lumen_example_general)
  moreover have "''EX_glc[d]'' \<notin> set (rxn_ids (reactions lumen_example))"
    by (simp add: lumen_example_def rxn_ids_def)
  moreover have "\<exists>model'. add_diet_fecal_compartments remdups lumen_example = Inr model'
         \<and> ''EX_glc[d]'' \<notin> set (rxn_ids (reactions model'))"
    by (rule lumen_example_no_diet_exchange) auto
  moreover have "\<exists>model'. add_diet_fecal_compartments (\<lambda>xs. rev (remdups xs)) lumen_example = Inr model'
         \<and> ''EX_glc[d]'' \<notin> set (rxn_ids (reactions model'))"
    by (rule lumen_example_no_diet_exchange) auto
  ultimately show ?thesis by blast
qed

section \<open>Properties of tagging\<close>

lemma startswith_append: "startswith (p @ t) p"
  by (induction p) auto

lemma str_contains_startswith: "startswith s p \<Longrightarrow> str_contains p s"
  by (cases s) (auto elim: startswith.elims)

lemma str_contains_prefix: "str_contains p (p @ t)"
  by (rule str_contains_startswith) (rule startswith_append)

lemma keeps_refl: "keeps name M M"
  by (simp add: keeps_def)

lemma keeps_trans: "keeps name M M' \<Longrightarrow> keeps name M' M'' \<Longrightarrow> keeps name M M''"
  by (auto simp: keeps_def)

lemma keeps_reactions: "keeps name M (M'\<lparr>reactions := rs\<rparr>) = keeps name M M'"
  "keeps name (M\<lparr>reactions := rs\<rparr>) M' = keeps name M M'"
  by (simp_all add: keeps_def)

lemma rename_metabolite_keeps:
  assumes "rename_metabolite old new cpt M = Inr M'" and "\<not> settled name old"
  shows "keeps name M M'"
proof -
  from assms(1) have M': "metabolites M' =
      map (\<lambda>m. if met_id m = old then \<lparr>met_id = new, compartment = cpt\<rparr> else m) (metabolites M)"
    by (auto simp: rename_metabolite_def split: if_splits)
  show ?thesis
    unfolding keeps_def M' using assms(2) by auto
qed

lemma tag_metabolite_keeps:
  "tag_metabolite k name' cpt M = Inr M' \<Longrightarrow> \<not> settled name k \<Longrightarrow> keeps name M M'"
  unfolding tag_metabolite_def Let_def by (rule rename_metabolite_keeps)

lemma tag_mets_of_keeps: "tag_mets_of ks name M = Inr M' \<Longrightarrow> keeps name M M'"
proof (induction ks arbitrary: M)
  case Nil
  then show ?case by (simp add: keeps_refl)
next
  case (Cons k ks)
  show ?case
  proof (cases "(str_contains ''[c]'' k \<or> str_contains ''[p]'' k) \<and> \<not> str_contains name k")
    case True
    with Cons.prems obtain M1 where
      t: "tag_metabolite k name (if str_contains ''[c]'' k then ''c'' else ''p'') M = Inr M1"
      and r: "tag_mets_of ks name M1 = Inr M'"
      by (auto split: sum.splits)
    from True have "\<not> settled name k" by (auto simp: settled_def tagged_cp_def)
    from tag_metabolite_keeps [OF t this] Cons.IH [OF r] show ?thesis
      by (blast intro: keeps_trans)
  next
    case False
    note no_cp = this
    show ?thesis
    proof (cases "str_contains ''[e]'' k \<and> \<not> str_contains name k")
      case True
      with no_cp Cons.prems obtain M1 where
        t: "rename_metabolite k (name @ ''_'' @ replace_str ''[e]'' '''' k @ ''[u]'') ''u'' M = Inr M1"
        and r: "tag_mets_of ks name M1 = Inr M'"
        by (auto split: sum.splits)
      from True have "\<not> settled name k" by (auto simp: settled_def)
      from rename_metabolite_keeps [OF t this] Cons.IH [OF r] show ?thesis
        by (blast intro: keeps_trans)
    next
      case False
      with no_cp Cons.prems have "tag_mets_of ks name M = Inr M'" by auto
      from Cons.IH [OF this] show ?thesis .
    qed
  qed
qed

lemma tag_reactions_keeps: "tag_reactions is name M = Inr M' \<Longrightarrow> keeps name M M'"
proof (induction "is" arbitrary: M)
  case Nil
  then show ?case by (simp add: keeps_refl)
next
  case (Cons i rest)
  let ?rxn = "reactions M ! i"
  show ?case
  proof (cases "rxn_mentions ''[e]'' ?rxn \<or> rxn_mentions ''[c]'' ?rxn")
    case True
    with Cons.prems obtain rs M1 where
      "rename_reaction_at i (name @ ''_'' @ rxn_id ?rxn) (reactions M) = Inr rs"
      and t: "tag_mets_of (map fst (stoich ?rxn)) name (M\<lparr>reactions := rs\<rparr>) = Inr M1"
      and r: "tag_reactions rest name M1 = Inr M'"
      by (auto simp: Let_def split: sum.splits)
    from tag_mets_of_keeps [OF t] have "keeps name M M1" by (simp add: keeps_reactions)
    with Cons.IH [OF r] show ?thesis by (blast intro: keeps_trans)
  next
    case False
    with Cons.prems have "tag_reactions rest name M = Inr M'" by (auto simp: Let_def)
    from Cons.IH [OF this] show ?thesis .
  qed
qed

lemma add_metabolite_keeps: "keeps name M (add_metabolite m M)"
  by (auto simp: keeps_def add_metabolite_def nth_append)

lemma add_transport_keeps:
  assumes "add_transport rid nm a b bounds M = Inr M'"
  shows "keeps name M M'"
proof -
  have "keeps name M (add_metabolite \<lparr>met_id = b, compartment = ''''\<rparr>
                        (add_metabolite \<lparr>met_id = a, compartment = ''''\<rparr> M))"
    by (blast intro: keeps_trans add_metabolite_keeps)
  with assms show ?thesis
    by (auto simp: add_transport_def Let_def keeps_reactions split: if_splits)
qed

lemma iex_loop_keeps: "iex_loop mids name' M = Inr M' \<Longrightarrow> keeps name M M'"
proof (induction mids arbitrary: M)
  case Nil
  then show ?case by (simp add: keeps_refl)
next
  case (Cons mid mids)
  let ?g = "replace_str (name' @ ''_'') '''' mid"
  let ?M1 = "if ?g \<notin> set (met_ids M)
             then add_metabolite \<lparr>met_id = ?g, compartment = ''u''\<rparr> M else M"
  from Cons.prems obtain M2 where
    t: "add_transport (name' @ ''_IEX_'' @ ?g @ ''tr'') (name' @ ''_IEX'') ?g mid (- 1000, 1000) ?M1
          = Inr M2"
    and r: "iex_loop mids name' M2 = Inr M'"
    by (auto simp: Let_def split: sum.splits)
  have "keeps name M ?M1" by (simp add: add_metabolite_keeps keeps_refl)
  with add_transport_keeps [OF t] Cons.IH [OF r] show ?case
    by (blast intro: keeps_trans)
qed

lemma finalize_mets_keeps: "finalize_mets is name M = Inr M' \<Longrightarrow> keeps name M M'"
proof (induction "is" arbitrary: M)
  case Nil
  then show ?case by (simp add: keeps_refl)
next
  case (Cons i rest)
  let ?k = "met_id (metabolites M ! i)"
  show ?case
  proof (cases "(str_contains ''[c]'' ?k \<or> str_contains ''[p]'' ?k) \<and> \<not> str_contains name ?k")
    case True
    with Cons.prems obtain M1 where
      t: "tag_metabolite ?k name (if str_contains ''[c]'' ?k then ''c'' else ''p'') M = Inr M1"
      and r: "finalize_mets rest name M1 = Inr M'"
      by (auto simp: Let_def split: sum.splits)
    from True have "\<not> settled name ?k" by (auto simp: settled_def tagged_cp_def)
    from tag_metabolite_keeps [OF t this] Cons.IH [OF r] show ?thesis
      by (blast intro: keeps_trans)
  next
    case False
    with Cons.prems have "finalize_mets rest name M = Inr M'" by (auto simp: Let_def)
    from Cons.IH [OF this] show ?thesis .
  qed
qed

lemma reformat_keeps:
  assumes "reformat_gem_for_community M name = Inr M'"
  shows "keeps name M M'"
proof -
  let ?M1 = "remove_reactions (\<lambda>rxn. str_contains ''EX_'' (rxn_id rxn)
                                          \<and> \<not> str_contains ''biomass'' (rxn_id rxn)) M"
  from assms obtain M2 M3 rs where
    t: "tag_reactions [0..<length (reactions ?M1)] name ?M1 = Inr M2"
    and c: "create_inter_microbe_exchange M2 name = Inr M3"
    and f: "finalize_mets [0..<length (metabolites M3)] name (M3\<lparr>reactions := rs\<rparr>) = Inr M'"
    by (auto simp: reformat_gem_for_community_def finalize_microbe_tagging_def Let_def
             split: sum.splits)
  have "keeps name M ?M1" by (simp add: keeps_def remove_reactions_def)
  moreover have "keeps name ?M1 M2" by (rule tag_reactions_keeps [OF t])
  moreover have "keeps name M2 M3"
    using c unfolding create_inter_microbe_exchange_def by (rule iex_loop_keeps)
  moreover have "keeps name M3 M'"
    using finalize_mets_keeps [OF f] by (simp add: keeps_reactions)
  ultimately show ?thesis by (blast intro: keeps_trans)
qed

lemma tag_metabolite_result:
  assumes "tag_metabolite k name cpt M = Inr M'"
  shows "\<exists>new. str_contains name new
           \<and> metabolites M' =
               map (\<lambda>m. if met_id m = k then \<lparr>met_id = new, compartment = cpt\<rparr> else m)
                   (metabolites M)"
proof -
  let ?new = "name @ ''_'' @ replace_str (''['' @ cpt @ '']'') '''' k @ ''['' @ cpt @ '']''"
  from assms have "metabolites M' =
      map (\<lambda>m. if met_id m = k then \<lparr>met_id = ?new, compartment = cpt\<rparr> else m) (metabolites M)"
    by (auto simp: tag_metabolite_def rename_metabolite_def Let_def split: if_splits)
  moreover have "str_contains name ?new" by (rule str_contains_prefix)
  ultimately show ?thesis by blast
qed

lemma finalize_mets_tagged:
  "finalize_mets is name M = Inr M' \<Longrightarrow> \<forall>i \<in> set is. i < length (metabolites M) \<Longrightarrow>
     length (metabolites M') = length (metabolites M)
   \<and> (\<forall>i < length (metabolites M).
         i \<in> set is \<or> tagged_cp name (met_id (metabolites M ! i)) \<longrightarrow>
         tagged_cp name (met_id (metabolites M' ! i)))"
proof (induction "is" arbitrary: M)
  case Nil
  then show ?case by simp
next
  case (Cons i rest)
  let ?k = "met_id (metabolites M ! i)"
  from Cons.prems(2) have i: "i < length (metabolites M)" by simp
  show ?case
  proof (cases "(str_contains ''[c]'' ?k \<or> str_contains ''[p]'' ?k) \<and> \<not> str_contains name ?k")
    case True
    with Cons.prems(1) obtain M1 where
      t: "tag_metabolite ?k name (if str_contains ''[c]'' ?k then ''c'' else ''p'') M = Inr M1"
      and r: "finalize_mets rest name M1 = Inr M'"
      by (auto simp: Let_def split: sum.splits)
    from tag_metabolite_result [OF t] obtain new where new: "str_contains name new"
      and M1: "metabolites M1 =
               map (\<lambda>m. if met_id m = ?k
                         then \<lparr>met_id = new, compartment = (if str_contains ''[c]'' ?k then ''c'' else ''p'')\<rparr>
                         else m)
                   (metabolites M)"
      by blast
    have len: "length (metabolites M1) = length (metabolites M)" by (simp add: M1)
    have step: "tagged_cp name (met_id (metabolites M1 ! p))"
      if "p < length (metabolites M)" "p = i \<or> tagged_cp name (met_id (metabolites M ! p))" for p
      using that new by (auto simp: M1 tagged_cp_def)
    from Cons.prems(2) len have "\<forall>j \<in> set rest. j < length (metabolites M1)" by simp
    from Cons.IH [OF r this] len step show ?thesis by auto
  next
    case False
    then have here: "tagged_cp name ?k" by (auto simp: tagged_cp_def)
    from False Cons.prems(1) have r: "finalize_mets rest name M = Inr M'" by (auto simp: Let_def)
    from Cons.prems(2) have "\<forall>j \<in> set rest. j < length (metabolites M)" by simp
    from Cons.IH [OF r this] here show ?thesis by auto
  qed
qed

lemma reformat_tagged:
  assumes "reformat_gem_for_community M name = Inr M'" and "i < length (metabolites M')"
  shows "tagged_cp name (met_id (metabolites M' ! i))"
proof -
  from assms(1) obtain N rs where
    f: "finalize_mets [0..<length (metabolites N)] name (N\<lparr>reactions := rs\<rparr>) = Inr M'"
    by (auto simp: reformat_gem_for_community_def finalize_microbe_tagging_def Let_def
             split: sum.splits)
  have "\<forall>j \<in> set [0..<length (metabolites N)]. j < length (metabolites (N\<lparr>reactions := rs\<rparr>))"
    by simp
  from finalize_mets_tagged [OF f this] assms(2) show ?thesis by simp
qed

text \<open>
  C3, as the code has it. When a network that \<open>reformat_gem_for_community\<close> returned
  for the organism name \<open>m\<close> is passed through it again with the same \<open>m\<close>, every
  metabolite keeps its position and its id, save possibly a metabolite whose id still
  carries \<open>[e]\<close> and does not contain \<open>m\<close>; in particular every \<open>[c]\<close> and \<open>[p]\<close>
  metabolite already contains \<open>m\<close> and is skipped. Nothing is said here of reaction ids.
\<close>

theorem tagging_twice_keeps_metabolite_ids:
  assumes "reformat_gem_for_community model m = Inr tagged"
    and "reformat_gem_for_community tagged m = Inr again"
    and "i < length (metabolites tagged)"
    and "str_contains ''[e]'' (met_id (metabolites tagged ! i))
           \<longrightarrow> str_contains m (met_id (metabolites tagged ! i))"
  shows "i < length (metabolites again)
       \<and> met_id (metabolites again ! i) = met_id (metabolites tagged ! i)
       \<and> (str_contains ''[c]'' (met_id (metabolites tagged ! i))
            \<or> str_contains ''[p]'' (met_id (metabolites tagged ! i))
          \<longrightarrow> str_contains m (met_id (metabolites tagged ! i)))"
proof -
  from reformat_tagged [OF assms(1,3)] assms(4)
  have s: "settled m (met_id (metabolites tagged ! i))"
    by (simp add: settled_def)
  from reformat_keeps [OF assms(2)] assms(3) s show ?thesis
    by (auto simp: keeps_def settled_def tagged_cp_def)
qed

lemma organism_example_first_pass:
  "reformat_gem_for_community organism_example ''Bt'' = Inr organism_tagged"
  by code_simp

lemma organism_example_second_pass:
  "reformat_gem_for_community organism_tagged ''Bt'' = Inr organism_tagged_twice"
  by code_simp

theorem tagging_twice_keeps_metabolite_ids_witness:
  "reformat_gem_for_community organism_example ''Bt'' = Inr organism_tagged
   \<and> reformat_gem_for_community organism_tagged ''Bt'' = Inr organism_tagged_twice
   \<and> 3 < length (metabolites organism_tagged)
   \<and> met_id (metabolites organism_tagged ! 3) = ''Bt_glc[c]''
   \<and> met_id (metabolites organism_tagged_twice ! 3) = ''Bt_glc[c]''"
proof -
  have h3: "3 < length (metabolites organism_tagged)"
    by (simp add: organism_tagged_def)
  have h4: "str_contains ''[e]'' (met_id (metabolites organism_tagged ! 3))
              \<longrightarrow> str_contains ''Bt'' (met_id (metabolites organism_tagged ! 3))"
    by (simp add: organism_tagged_def)
  from tagging_twice_keeps_metabolite_ids
         [OF organism_example_first_pass organism_example_second_pass h3 h4]
       organism_example_first_pass organism_example_second_pass h3
  show ?thesis by (simp add: organism_tagged_def)
qed

text \<open>
  The claim as stated fails on reaction ids: the loop of lines 248 to 251 prefixes the
  id of every reaction whose equation mentions \<open>[c]\<close> or \<open>[e]\<close>, tagged before or not,
  so the second pass turns \<open>Bt_PGI\<close> into \<open>Bt_Bt_PGI\<close>.
\<close>

theorem tagging_twice_counterexample:
  "reformat_gem_for_community organism_example ''Bt'' = Inr organism_tagged
   \<and> reformat_gem_for_community organism_tagged ''Bt'' = Inr organism_tagged_twice
   \<and> rxn_ids (reactions organism_tagged) = [''Bt_PGI'', ''Bt_GLCt'', ''Bt_IEX_glc[u]tr'']
   \<and> rxn_ids (reactions organism_tagged_twice)
       = [''Bt_Bt_PGI'', ''Bt_Bt_GLCt'', ''Bt_IEX_glc[u]tr'']
   \<and> rxn_ids (reactions organism_tagged_twice) \<noteq> rxn_ids (reactions organism_tagged)"
  using organism_example_first_pass organism_example_second_pass
  by (simp add: organism_tagged_def organism_tagged_twice_def rxn_ids_def)

section \<open>Properties of diet adaptation\<close>

lemma set_lower_bound_id: "\<forall>r r'. set_lower_bound v r = Inr r' \<longrightarrow> rxn_id r' = rxn_id r"
  by (auto simp: set_lower_bound_def split: if_splits)

lemma set_upper_bound_id: "\<forall>r r'. set_upper_bound v r = Inr r' \<longrightarrow> rxn_id r' = rxn_id r"
  by (auto simp: set_upper_bound_def split: if_splits)

lemma close_diet_result:
  "close_diet rs = Inr rs' \<Longrightarrow>
     rs' = map (\<lambda>r. if startswith (rxn_id r) ''Diet_EX_'' then r\<lparr>lower_bound := 0\<rparr> else r) rs"
  unfolding close_diet_def
  by (induction rs arbitrary: rs')
     (auto simp: set_lower_bound_def split: sum.splits if_splits)

lemma apply_diet_row_cases:
  assumes "apply_diet_row row rs = Inr rs'"
  obtains (absent) "row_rxn_id row \<notin> set (rxn_ids rs)" "rs' = rs"
  | (present) rs1 where "row_rxn_id row \<in> set (rxn_ids rs)"
      "modify_by_id (row_rxn_id row) (set_lower_bound (row_lower_bound row)) rs = Inr rs1"
      "(case row_upper_bound row of None \<Rightarrow> Inr rs1
        | Some ub \<Rightarrow> modify_by_id (row_rxn_id row) (set_upper_bound ub) rs1) = Inr rs'"
  using assms
  by (cases "row_rxn_id row \<in> set (rxn_ids rs)")
     (auto simp: apply_diet_row_def Let_def split: sum.splits)

lemma apply_diet_row_frame:
  assumes "apply_diet_row row rs = Inr rs'"
  shows "map rxn_id rs' = map rxn_id rs"
    and "\<And>i. i < length rs \<Longrightarrow> rxn_id (rs ! i) \<noteq> row_rxn_id row \<Longrightarrow> rs' ! i = rs ! i"
    and "\<And>other. other \<noteq> row_rxn_id row \<Longrightarrow> get_by_id rs' other = get_by_id rs other"
    and "row_rxn_id row \<in> set (rxn_ids rs) \<Longrightarrow>
           \<exists>r0 r. get_by_id rs (row_rxn_id row) = Some r0
                 \<and> get_by_id rs' (row_rxn_id row) = Some r
                 \<and> lower_bound r = row_lower_bound row
                 \<and> upper_bound r = (case row_upper_bound row of None \<Rightarrow> upper_bound r0 | Some ub \<Rightarrow> ub)"
proof -
  let ?rid = "row_rxn_id row"
  show "map rxn_id rs' = map rxn_id rs"
    using assms
  proof (cases rule: apply_diet_row_cases)
    case absent
    then show ?thesis by simp
  next
    case (present rs1)
    from modify_by_id_frame(1) [OF present(2) set_lower_bound_id]
    have "map rxn_id rs1 = map rxn_id rs" .
    moreover from present(3) have "map rxn_id rs' = map rxn_id rs1"
      by (auto split: option.splits dest: modify_by_id_frame(1) [OF _ set_upper_bound_id])
    ultimately show ?thesis by simp
  qed
  show "rs' ! i = rs ! i" if "i < length rs" "rxn_id (rs ! i) \<noteq> ?rid" for i
    using assms
  proof (cases rule: apply_diet_row_cases)
    case absent
    then show ?thesis by simp
  next
    case (present rs1)
    have ids: "map rxn_id rs1 = map rxn_id rs"
      using modify_by_id_frame(1) [OF present(2) set_lower_bound_id] .
    then have len: "length rs1 = length rs" by (metis length_map)
    have a: "rs1 ! i = rs ! i"
      using modify_by_id_frame(2) [OF present(2) set_lower_bound_id that] .
    have "rxn_id (rs1 ! i) \<noteq> ?rid" using a that by simp
    with present(3) that len have "rs' ! i = rs1 ! i"
      by (auto split: option.splits dest: modify_by_id_frame(2) [OF _ set_upper_bound_id])
    with a show ?thesis by simp
  qed
  show "get_by_id rs' other = get_by_id rs other" if "other \<noteq> ?rid" for other
    using assms
  proof (cases rule: apply_diet_row_cases)
    case absent
    then show ?thesis by simp
  next
    case (present rs1)
    have a: "get_by_id rs1 other = get_by_id rs other"
      using modify_by_id_frame(3) [OF present(2) set_lower_bound_id that] .
    from present(3) that have "get_by_id rs' other = get_by_id rs1 other"
      by (auto split: option.splits dest: modify_by_id_frame(3) [OF _ set_upper_bound_id])
    with a show ?thesis by simp
  qed
  show "\<exists>r0 r. get_by_id rs ?rid = Some r0 \<and> get_by_id rs' ?rid = Some r
          \<and> lower_bound r = row_lower_bound row
          \<and> upper_bound r = (case row_upper_bound row of None \<Rightarrow> upper_bound r0 | Some ub \<Rightarrow> ub)"
    if "?rid \<in> set (rxn_ids rs)"
    using assms
  proof (cases rule: apply_diet_row_cases)
    case absent
    with that show ?thesis by simp
  next
    case (present rs1)
    from modify_by_id_frame(4) [OF present(2) set_lower_bound_id] obtain r0 r1
      where r0: "get_by_id rs ?rid = Some r0"
        and f1: "set_lower_bound (row_lower_bound row) r0 = Inr r1"
        and r1: "get_by_id rs1 ?rid = Some r1" by blast
    from f1 have b1: "lower_bound r1 = row_lower_bound row" "upper_bound r1 = upper_bound r0"
      by (auto simp: set_lower_bound_def split: if_splits)
    show ?thesis
    proof (cases "row_upper_bound row")
      case None
      with present(3) r0 r1 b1 show ?thesis by auto
    next
      case (Some ub)
      with present(3) have m2': "modify_by_id ?rid (set_upper_bound ub) rs1 = Inr rs'" by simp
      from modify_by_id_frame(4) [OF m2' set_upper_bound_id] r1 obtain r2
        where f2: "set_upper_bound ub r1 = Inr r2" and r2: "get_by_id rs' ?rid = Some r2" by auto
      from f2 have "lower_bound r2 = lower_bound r1" "upper_bound r2 = ub"
        by (auto simp: set_upper_bound_def split: if_splits)
      with r0 r2 b1 Some show ?thesis by auto
    qed
  qed
qed

lemma apply_diet_rows_frame:
  assumes "apply_diet_rows rows rs = Inr rs'"
  shows "map rxn_id rs' = map rxn_id rs
       \<and> (\<forall>i<length rs. rxn_id (rs ! i) \<notin> row_rxn_id ` set rows \<longrightarrow> rs' ! i = rs ! i)
       \<and> (\<forall>other. other \<notin> row_rxn_id ` set rows \<longrightarrow> get_by_id rs' other = get_by_id rs other)"
  using assms
proof (induction rows arbitrary: rs)
  case Nil
  then show ?case by simp
next
  case (Cons row rows)
  from Cons.prems obtain rs1 where s1: "apply_diet_row row rs = Inr rs1"
    and s2: "apply_diet_rows rows rs1 = Inr rs'"
    by (auto split: sum.splits)
  note f = apply_diet_row_frame [OF s1]
  note ih = Cons.IH [OF s2]
  have len: "length rs1 = length rs" using f(1) by (metis length_map)
  have ids: "\<And>i. i < length rs \<Longrightarrow> rxn_id (rs1 ! i) = rxn_id (rs ! i)"
    using f(1) len by (metis nth_map)
  show ?case
  proof (intro conjI allI impI)
    show "map rxn_id rs' = map rxn_id rs" using ih f(1) by simp
  next
    fix i assume i: "i < length rs" and n: "rxn_id (rs ! i) \<notin> row_rxn_id ` set (row # rows)"
    then have "rs1 ! i = rs ! i" using f(2) by auto
    moreover have "rs' ! i = rs1 ! i" using ih i n len ids by auto
    ultimately show "rs' ! i = rs ! i" by simp
  next
    fix other assume "other \<notin> row_rxn_id ` set (row # rows)"
    then show "get_by_id rs' other = get_by_id rs other" using ih f(3) by auto
  qed
qed

lemma apply_diet_rows_row:
  assumes "apply_diet_rows rows rs = Inr rs'"
    and "distinct (map row_rxn_id rows)"
    and "row \<in> set rows"
    and "row_rxn_id row \<in> set (rxn_ids rs)"
  shows "\<exists>r0 r. get_by_id rs (row_rxn_id row) = Some r0
              \<and> get_by_id rs' (row_rxn_id row) = Some r
              \<and> lower_bound r = row_lower_bound row
              \<and> upper_bound r = (case row_upper_bound row of None \<Rightarrow> upper_bound r0 | Some ub \<Rightarrow> ub)"
  using assms
proof (induction rows arbitrary: rs)
  case Nil
  then show ?case by simp
next
  case (Cons x rows)
  from Cons.prems(1) obtain rs1 where s1: "apply_diet_row x rs = Inr rs1"
    and s2: "apply_diet_rows rows rs1 = Inr rs'"
    by (auto split: sum.splits)
  note f = apply_diet_row_frame [OF s1]
  show ?case
  proof (cases "row = x")
    case True
    from Cons.prems(2) True have "row_rxn_id row \<notin> row_rxn_id ` set rows" by auto
    with apply_diet_rows_frame [OF s2]
    have "get_by_id rs' (row_rxn_id row) = get_by_id rs1 (row_rxn_id row)" by blast
    with f(4) Cons.prems(4) True show ?thesis by auto
  next
    case False
    with Cons.prems have in_rows: "row \<in> set rows" and d: "distinct (map row_rxn_id rows)"
      by auto
    from Cons.prems(2) in_rows have ne: "row_rxn_id row \<noteq> row_rxn_id x"
      by (auto simp: image_iff)
    have "row_rxn_id row \<in> set (rxn_ids rs1)"
      using Cons.prems(4) f(1) by (simp add: rxn_ids_def)
    from Cons.IH [OF s2 d in_rows this] f(3) [OF ne] show ?thesis by auto
  qed
qed

text \<open>
  C6. When diet adaptation returns, it has gone through three stages: the renaming of the
  diet exchanges, the closing stage after which every reaction whose id starts with
  \<open>Diet_EX_\<close> has lower bound 0 and nothing else has changed, and the diet rows. After
  the rows, no reaction id has changed, every reaction that no diet row names is exactly
  as the closing stage left it, and (for a diet table with one row per reaction id) the
  reaction a row names has the row's lower bound, and the row's upper bound when the row
  gives one.
\<close>

theorem diet_zeroing_frame:
  assumes "apply_dietary_constraints model diet = Inr model'"
  shows "\<exists>rs1 rs2.
      rename_diet_exchanges (reactions model) = Inr rs1
    \<and> close_diet rs1 = Inr rs2
    \<and> rs2 = map (\<lambda>r. if startswith (rxn_id r) ''Diet_EX_'' then r\<lparr>lower_bound := 0\<rparr> else r) rs1
    \<and> apply_diet_rows diet rs2 = Inr (reactions model')
    \<and> map rxn_id (reactions model') = map rxn_id rs2
    \<and> (\<forall>i<length rs2. rxn_id (rs2 ! i) \<notin> row_rxn_id ` set diet \<longrightarrow>
          reactions model' ! i = rs2 ! i)
    \<and> (distinct (map row_rxn_id diet) \<longrightarrow>
        (\<forall>row\<in>set diet. row_rxn_id row \<in> set (rxn_ids rs2) \<longrightarrow>
          (\<exists>r0 r. get_by_id rs2 (row_rxn_id row) = Some r0
                \<and> get_by_id (reactions model') (row_rxn_id row) = Some r
                \<and> lower_bound r = row_lower_bound row
                \<and> upper_bound r =
                    (case row_upper_bound row of None \<Rightarrow> upper_bound r0 | Some ub \<Rightarrow> ub))))"
proof -
  from assms obtain rs1 rs2 rs3
    where s1: "rename_diet_exchanges (reactions model) = Inr rs1"
      and s2: "close_diet rs1 = Inr rs2"
      and s3: "apply_diet_rows diet rs2 = Inr rs3"
      and m: "model' = model\<lparr>reactions := rs3\<rparr>"
    by (auto simp: apply_dietary_constraints_def split: sum.splits)
  have r3: "reactions model' = rs3" by (simp add: m)
  note z = close_diet_result [OF s2]
  note f = apply_diet_rows_frame [OF s3]
  have rows: "\<exists>r0 r. get_by_id rs2 (row_rxn_id row) = Some r0
                \<and> get_by_id rs3 (row_rxn_id row) = Some r
                \<and> lower_bound r = row_lower_bound row
                \<and> upper_bound r =
                    (case row_upper_bound row of None \<Rightarrow> upper_bound r0 | Some ub \<Rightarrow> ub)"
    if "distinct (map row_rxn_id diet)" "row \<in> set diet" "row_rxn_id row \<in> set (rxn_ids rs2)"
    for row
    using apply_diet_rows_row [OF s3 that] .
  show ?thesis
    apply (rule exI [of _ rs1], rule exI [of _ rs2])
    unfolding r3
    using s1 s2 s3 z f rows by blast
qed

theorem diet_zeroing_frame_witness:
  "apply_dietary_constraints diet_example
      [\<lparr>row_rxn_id = ''Diet_EX_glc[d]'', row_lower_bound = - 10, row_upper_bound = None\<rparr>]
     = Inr diet_example_adapted
   \<and> map (\<lambda>r. (rxn_id r, lower_bound r, upper_bound r)) (reactions diet_example_adapted)
     = [(''Diet_EX_glc[d]'', - 10, 10000), (''Diet_EX_ac[d]'', 0, 10000),
        (''DUt_glc'', 0, 10000)]"
proof -
  have h: "apply_dietary_constraints diet_example
      [\<lparr>row_rxn_id = ''Diet_EX_glc[d]'', row_lower_bound = - 10, row_upper_bound = None\<rparr>]
     = Inr diet_example_adapted"
    by (simp add: diet_example_def diet_example_adapted_def apply_dietary_constraints_def
          rename_diet_exchanges_def close_diet_def apply_diet_row_def modify_by_id_def
          get_by_id_def set_lower_bound_def rxn_ids_def Let_def)
  from diet_zeroing_frame [OF h] h show ?thesis
    by (simp add: diet_example_adapted_def)
qed

section \<open>Properties of the simulation phase\<close>

lemma simulate_single_sample_raises:
  "\<exists>e. simulate_single_sample sample_name ex_mets loaded diet bb hm opt fva = Inl e"
  by (auto simp: simulate_single_sample_def unpack_def analyze_result_tuple_def
           split: sum.splits)

text \<open>
  C5. The claim says that \<open>simulate_single_sample\<close> returns the tuple of sample name,
  net production and net uptake. It never returns: \<open>_analyze_metabolite_fluxes\<close>
  returns four values (line 210) and line 77 unpacks them into two names, which raises
  ValueError on every sample whose earlier steps succeed. On a sample with an empty
  model and an empty diet the result is that ValueError.
\<close>

theorem simulate_single_sample_never_returns:
  "(\<exists>e. simulate_single_sample sample_name ex_mets loaded diet bb hm opt fva = Inl e)
   \<and> simulate_single_sample ''s1'' [''EX_ac[fe]'']
        (Inr \<lparr>reactions = [], metabolites = []\<rparr>) [] (4 / 10, 1) HUMAN_METS
        (\<lambda>m. Inr ''Diet/microbiota_model_diet_s1.mat'')
        (\<lambda>m. Inr \<lparr>fva_fecal_rxns = [''EX_ac[fe]''], fva_min_flux_fecal = Map.empty,
                   fva_max_flux_fecal = [''EX_ac[fe]'' \<mapsto> 2],
                   fva_min_flux_diet = [''Diet_EX_ac[d]'' \<mapsto> - 5],
                   fva_max_flux_diet = Map.empty\<rparr>)
      = Inl ValueError"
  by (auto simp: simulate_single_sample_def unpack_def analyze_result_tuple_def
        apply_dietary_constraints_def rename_diet_exchanges_def close_diet_def
        configure_physiological_bounds_def rxn_ids_def HUMAN_METS_def
           split: sum.splits)

text \<open>
  C9. The claim says that a failing sample is caught, logged and left out while the
  other samples are still collected. When the first task to complete fails, the handler
  of line 270 reads the local \<open>sample_name\<close>, which no unpacking has bound yet: the
  handler raises UnboundLocalError and the phase ends there, whatever the other tasks
  returned. As every task raises (C5), the phase ends so on any non-empty list of
  samples.
\<close>

theorem first_failure_aborts_phase:
  "collect_results (Inl e # rest) init_state = Inl UnboundLocalError
   \<and> simulate_microbiota_models (samp # completed) ex_mets (Inr diet_constraints)
        biomass_bounds load optimize_and_save run_fva = Inl UnboundLocalError"
proof -
  obtain e' where "simulate_single_sample samp (exchanges_of ex_mets) (load samp)
      diet_constraints biomass_bounds HUMAN_METS (optimize_and_save samp) (run_fva samp) = Inl e'"
    using simulate_single_sample_raises by blast
  then show ?thesis
    by (simp add: simulate_microbiota_models_def collect_one_def init_state_def)
qed

end
